theory Spec2Isabelle
  imports Complex_Main
begin

section \<open>Cart pricing and coupon redemption\<close>

text \<open>
  A shallow embedding of the cart operations of \<^verbatim>\<open>CartRepository\<close>
  (\<^verbatim>\<open>packages/database/src/repositories/payment.repository.ts\<close>) and of the coupon
  mutations of the arrangement subgraph
  (\<^verbatim>\<open>packages/subgraphs/arrangement/src/resolvers.ts\<close>).

  The database is a record of tables, each table a list of rows in storage order.
  Every operation takes the database and returns the thrown error or the returned
  value, together with the database as the operation left it: a write that happened
  before a throw stays written, since the source opens no transaction.

  JavaScript numbers that hold money are modelled as exact rationals (rounding is
  abstracted away); quantities and counters are integers; dates are milliseconds
  since the epoch.
\<close>

subsection \<open>Data model\<close>

type_synonym ident = string
type_synonym date = int

record productVariant =
  variant_id :: ident
  variant_price :: rat

record product =
  product_id :: ident
  product_price :: rat
  product_variants :: "productVariant list"

record cartItem =
  item_id :: ident
  item_cartId :: ident
  item_productId :: ident
  item_variantId :: "ident option"
  item_quantity :: int
  item_price :: rat
  item_total :: rat

record promoCode =
  promo_id :: ident
  promo_code :: string
  promo_discount :: rat
  promo_isPercentage :: bool
  promo_expiresAt :: "date option"

text \<open>
  The cart row carries the fields \<^verbatim>\<open>CartRepository\<close> writes (the five amounts and
  the promo code relation) and the two fields the arrangement subgraph writes
  (\<^verbatim>\<open>discountAmount\<close>, \<^verbatim>\<open>couponCode\<close>).
\<close>

record cart =
  cart_id :: ident
  cart_userId :: "ident option"
  cart_subtotal :: rat
  cart_tax :: rat
  cart_shipping :: rat
  cart_discount :: rat
  cart_total :: rat
  cart_promoCodeId :: "ident option"
  cart_discountAmount :: rat
  cart_couponCode :: "string option"

datatype discountType = PERCENTAGE | FIXED_AMOUNT | FREE_SHIPPING | OTHER_TYPE

record coupon =
  coupon_id :: ident
  coupon_code :: string
  coupon_isActive :: bool
  coupon_startDate :: date
  coupon_endDate :: date
  coupon_maxUses :: "int option"
  coupon_usesCount :: int
  coupon_minPurchase :: "rat option"
  coupon_discountType :: discountType
  coupon_discountValue :: rat
  coupon_maxDiscount :: "rat option"

record db =
  db_products :: "product list"
  db_cartItems :: "cartItem list"
  db_carts :: "cart list"
  db_promoCodes :: "promoCode list"
  db_coupons :: "coupon list"

record cartItemInput =
  in_productId :: ident
  in_variantId :: "ident option"
  in_quantity :: int

record user =
  user_id :: ident
  user_role :: string

record couponApplication =
  app_cartId :: ident
  app_discountAmount :: rat
  app_couponCode :: string

text \<open>One constructor for each \<^verbatim>\<open>throw\<close> of the source, named after its message.\<close>

datatype error =
    ProductNotFound ident  \<comment> \<open>\<^verbatim>\<open>Product with ID ... not found\<close>\<close>
  | VariantNotFound ident  \<comment> \<open>\<^verbatim>\<open>Variant with ID ... not found\<close>\<close>
  | CartItemNotFound ident  \<comment> \<open>\<^verbatim>\<open>Cart item with ID ... not found\<close>\<close>
  | CartWithIdNotFound ident  \<comment> \<open>\<^verbatim>\<open>Cart with ID ... not found\<close>\<close>
  | PromoCodeNotFound string  \<comment> \<open>\<^verbatim>\<open>Promo code ... not found\<close>\<close>
  | PromoCodeExpired string  \<comment> \<open>\<^verbatim>\<open>Promo code ... has expired\<close>\<close>
  | AuthenticationError  \<comment> \<open>\<^verbatim>\<open>You must be logged in to ...\<close>\<close>
  | CouponNotFound  \<comment> \<open>\<^verbatim>\<open>Coupon not found\<close>\<close>
  | CouponNotActiveOrExpired  \<comment> \<open>\<^verbatim>\<open>Coupon is not active or has expired\<close>\<close>
  | CouponUsageLimitReached  \<comment> \<open>\<^verbatim>\<open>Coupon usage limit reached\<close>\<close>
  | CartNotFound  \<comment> \<open>\<^verbatim>\<open>Cart not found\<close>\<close>
  | MinimumPurchaseRequired rat  \<comment> \<open>\<^verbatim>\<open>Minimum purchase amount of ... required for this coupon\<close>\<close>
  | RecordNotFound  \<comment> \<open>thrown by the ORM: update, delete or connect of a row that is absent\<close>
  | TypeError  \<comment> \<open>a property read on \<^verbatim>\<open>null\<close>\<close>

subsection \<open>JavaScript truthiness\<close>

definition truthyString :: "string option \<Rightarrow> bool" where
  "truthyString v = (case v of None \<Rightarrow> False | Some s \<Rightarrow> s \<noteq> [])"

text \<open>
  An optional number is truthy when it is neither \<^verbatim>\<open>null\<close> nor zero; the guards
  \<^verbatim>\<open>coupon.maxUses && ...\<close>, \<^verbatim>\<open>coupon.minPurchase && ...\<close> and
  \<^verbatim>\<open>coupon.maxDiscount && ...\<close> are written out as a case on the option with the
  test \<open>m \<noteq> 0\<close>.
\<close>

text \<open>\<^verbatim>\<open>item.variantId || null\<close>\<close>

definition orNull :: "string option \<Rightarrow> string option" where
  "orNull v = (if truthyString v then v else None)"

subsection \<open>Table access\<close>

definition findCart :: "ident \<Rightarrow> db \<Rightarrow> cart option" where
  "findCart cartId d = find (\<lambda>c. cart_id c = cartId) (db_carts d)"

definition updateCart :: "ident \<Rightarrow> (cart \<Rightarrow> cart) \<Rightarrow> db \<Rightarrow> (error + unit) \<times> db" where
  "updateCart cartId f d =
     (case findCart cartId d of
        None \<Rightarrow> (Inl RecordNotFound, d)
      | Some _ \<Rightarrow>
          (Inr (), d\<lparr>db_carts := map (\<lambda>c. if cart_id c = cartId then f c else c) (db_carts d)\<rparr>))"

definition findCartItem :: "ident \<Rightarrow> db \<Rightarrow> cartItem option" where
  "findCartItem cartItemId d = find (\<lambda>i. item_id i = cartItemId) (db_cartItems d)"

definition updateCartItem :: "ident \<Rightarrow> (cartItem \<Rightarrow> cartItem) \<Rightarrow> db \<Rightarrow> db" where
  "updateCartItem cartItemId f d =
     d\<lparr>db_cartItems := map (\<lambda>i. if item_id i = cartItemId then f i else i) (db_cartItems d)\<rparr>"

definition itemsOfCart :: "ident \<Rightarrow> db \<Rightarrow> cartItem list" where
  "itemsOfCart cartId d = filter (\<lambda>i. item_cartId i = cartId) (db_cartItems d)"

definition sameLine :: "ident \<Rightarrow> ident \<Rightarrow> ident option \<Rightarrow> cartItem \<Rightarrow> bool" where
  "sameLine cartId productId variantId i =
     (item_cartId i = cartId \<and> item_productId i = productId \<and> item_variantId i = variantId)"

subsection \<open>CartRepository\<close>

definition findById :: "ident \<Rightarrow> db \<Rightarrow> (error + cart option) \<times> db" where
  "findById cartId d = (Inr (findCart cartId d), d)"

definition recalculateCartTotals :: "ident \<Rightarrow> db \<Rightarrow> (error + unit) \<times> db" where
  "recalculateCartTotals cartId d =
     (case findCart cartId d of
        None \<Rightarrow> (Inl (CartWithIdNotFound cartId), d)
      | Some c \<Rightarrow>
          (let items = itemsOfCart cartId d;
               promo = (case cart_promoCodeId c of
                          None \<Rightarrow> None
                        | Some pid \<Rightarrow> find (\<lambda>p. promo_id p = pid) (db_promoCodes d));
               subtotal = foldl (\<lambda>sum item. sum + item_total item) 0 items;
               discount = (case promo of
                             None \<Rightarrow> 0
                           | Some p \<Rightarrow>
                               if promo_isPercentage p
                               then subtotal * (promo_discount p / 100)
                               else min (promo_discount p) subtotal);
               taxRate = 1 / 10;
               tax = (subtotal - discount) * taxRate;
               shipping = (if subtotal > 0 then 10 else 0);
               total = subtotal - discount + tax + shipping
           in updateCart cartId
                (\<lambda>c. c\<lparr>cart_subtotal := subtotal, cart_discount := discount, cart_tax := tax,
                        cart_shipping := shipping, cart_total := total\<rparr>) d))"

text \<open>
  \<open>newId\<close> is the identifier the database gives to a row that \<open>addItem\<close> creates.
\<close>

definition addItem :: "ident \<Rightarrow> ident \<Rightarrow> cartItemInput \<Rightarrow> db \<Rightarrow> (error + cart option) \<times> db" where
  "addItem newId cartId item d =
     (case find (\<lambda>p. product_id p = in_productId item) (db_products d) of
        None \<Rightarrow> (Inl (ProductNotFound (in_productId item)), d)
      | Some p \<Rightarrow>
          (let variants = (if truthyString (in_variantId item)
                           then filter (\<lambda>v. Some (variant_id v) = in_variantId item) (product_variants p)
                           else [])
           in if truthyString (in_variantId item) \<and> variants = []
              then (Inl (VariantNotFound (case in_variantId item of Some v \<Rightarrow> v | None \<Rightarrow> [])), d)
              else
                (let price = (case variants of v # _ \<Rightarrow> variant_price v | [] \<Rightarrow> product_price p);
                     existingItem = find (sameLine cartId (in_productId item) (orNull (in_variantId item)))
                                      (db_cartItems d)
                 in case (case existingItem of
                            Some e \<Rightarrow>
                              (Inr (), updateCartItem (item_id e)
                                 (\<lambda>i. i\<lparr>item_quantity := item_quantity e + in_quantity item,
                                         item_total := of_int (item_quantity e + in_quantity item) * price\<rparr>) d)
                          | None \<Rightarrow>
                              (case findCart cartId d of
                                 None \<Rightarrow> (Inl RecordNotFound, d)
                               | Some _ \<Rightarrow>
                                   (Inr (), d\<lparr>db_cartItems := db_cartItems d @
                                      [\<lparr>item_id = newId, item_cartId = cartId,
                                        item_productId = in_productId item,
                                        item_variantId = orNull (in_variantId item),
                                        item_quantity = in_quantity item,
                                        item_price = price,
                                        item_total = of_int (in_quantity item) * price\<rparr>]\<rparr>)))
                    of (Inl e, d1) \<Rightarrow> (Inl e, d1)
                     | (Inr _, d1) \<Rightarrow>
                         (case recalculateCartTotals cartId d1 of
                            (Inl e, d2) \<Rightarrow> (Inl e, d2)
                          | (Inr _, d2) \<Rightarrow> findById cartId d2))))"

definition updateItem :: "ident \<Rightarrow> int \<Rightarrow> db \<Rightarrow> (error + cart option) \<times> db" where
  "updateItem cartItemId quantity d =
     (case findCartItem cartItemId d of
        None \<Rightarrow> (Inl (CartItemNotFound cartItemId), d)
      | Some cartItem \<Rightarrow>
          (let d1 = updateCartItem cartItemId
                      (\<lambda>i. i\<lparr>item_quantity := quantity,
                              item_total := of_int quantity * item_price cartItem\<rparr>) d
           in case recalculateCartTotals (item_cartId cartItem) d1 of
                (Inl e, d2) \<Rightarrow> (Inl e, d2)
              | (Inr _, d2) \<Rightarrow> findById (item_cartId cartItem) d2))"

definition removeItem :: "ident \<Rightarrow> db \<Rightarrow> (error + cart option) \<times> db" where
  "removeItem cartItemId d =
     (case findCartItem cartItemId d of
        None \<Rightarrow> (Inl (CartItemNotFound cartItemId), d)
      | Some cartItem \<Rightarrow>
          (let d1 = d\<lparr>db_cartItems := filter (\<lambda>i. item_id i \<noteq> cartItemId) (db_cartItems d)\<rparr>
           in case recalculateCartTotals (item_cartId cartItem) d1 of
                (Inl e, d2) \<Rightarrow> (Inl e, d2)
              | (Inr _, d2) \<Rightarrow> findById (item_cartId cartItem) d2))"

definition clearCart :: "ident \<Rightarrow> db \<Rightarrow> (error + cart option) \<times> db" where
  "clearCart cartId d =
     (let d1 = d\<lparr>db_cartItems := filter (\<lambda>i. item_cartId i \<noteq> cartId) (db_cartItems d)\<rparr>
      in case updateCart cartId
                (\<lambda>c. c\<lparr>cart_subtotal := 0, cart_tax := 0, cart_shipping := 0, cart_discount := 0,
                        cart_total := 0, cart_promoCodeId := None\<rparr>) d1 of
           (Inl e, d2) \<Rightarrow> (Inl e, d2)
         | (Inr _, d2) \<Rightarrow> findById cartId d2)"

text \<open>\<open>now\<close> is the value of \<^verbatim>\<open>new Date()\<close> at the call.\<close>

definition applyPromoCode :: "date \<Rightarrow> ident \<Rightarrow> string \<Rightarrow> db \<Rightarrow> (error + cart option) \<times> db" where
  "applyPromoCode now cartId code d =
     (case find (\<lambda>p. promo_code p = code) (db_promoCodes d) of
        None \<Rightarrow> (Inl (PromoCodeNotFound code), d)
      | Some promo \<Rightarrow>
          if (case promo_expiresAt promo of None \<Rightarrow> False | Some t \<Rightarrow> t < now)
          then (Inl (PromoCodeExpired code), d)
          else
            (case updateCart cartId (\<lambda>c. c\<lparr>cart_promoCodeId := Some (promo_id promo)\<rparr>) d of
               (Inl e, d1) \<Rightarrow> (Inl e, d1)
             | (Inr _, d1) \<Rightarrow>
                 (case recalculateCartTotals cartId d1 of
                    (Inl e, d2) \<Rightarrow> (Inl e, d2)
                  | (Inr _, d2) \<Rightarrow> findById cartId d2)))"

definition removePromoCode :: "ident \<Rightarrow> db \<Rightarrow> (error + cart option) \<times> db" where
  "removePromoCode cartId d =
     (case updateCart cartId (\<lambda>c. c\<lparr>cart_promoCodeId := None\<rparr>) d of
        (Inl e, d1) \<Rightarrow> (Inl e, d1)
      | (Inr _, d1) \<Rightarrow>
          (case recalculateCartTotals cartId d1 of
             (Inl e, d2) \<Rightarrow> (Inl e, d2)
           | (Inr _, d2) \<Rightarrow> findById cartId d2))"

subsection \<open>Coupon mutations of the arrangement subgraph\<close>

text \<open>
  \<^verbatim>\<open>cart.items.reduce((total, item) => total + item.product.price * item.quantity, 0)\<close>:
  the price is the product's current price. The product of a row is a required relation;
  a row whose product is absent makes the property read fail.
\<close>

fun reduceCartTotal :: "product list \<Rightarrow> rat \<Rightarrow> cartItem list \<Rightarrow> rat option" where
  "reduceCartTotal ps tot [] = Some tot"
| "reduceCartTotal ps tot (item # items) =
     (case find (\<lambda>p. product_id p = item_productId item) ps of
        None \<Rightarrow> None
      | Some p \<Rightarrow> reduceCartTotal ps (tot + product_price p * of_int (item_quantity item)) items)"

definition couponDiscountAmount :: "coupon \<Rightarrow> rat \<Rightarrow> rat" where
  "couponDiscountAmount c cartTotal =
     (case coupon_discountType c of
        PERCENTAGE \<Rightarrow>
          (let discountAmount = cartTotal * (coupon_discountValue c / 100)
           in case coupon_maxDiscount c of
                None \<Rightarrow> discountAmount
              | Some m \<Rightarrow> if m \<noteq> 0 \<and> discountAmount > m then m else discountAmount)
      | FIXED_AMOUNT \<Rightarrow> coupon_discountValue c
      | FREE_SHIPPING \<Rightarrow> 0
      | OTHER_TYPE \<Rightarrow> 0)"

definition applyCoupon ::
  "user option \<Rightarrow> date \<Rightarrow> string \<Rightarrow> ident \<Rightarrow> db \<Rightarrow> (error + couponApplication) \<times> db" where
  "applyCoupon usr now code cartId d =
     (if usr = None then (Inl AuthenticationError, d)
      else
        case find (\<lambda>c. coupon_code c = code) (db_coupons d) of
          None \<Rightarrow> (Inl CouponNotFound, d)
        | Some c \<Rightarrow>
            if \<not> coupon_isActive c \<or> coupon_endDate c < now \<or> coupon_startDate c > now
            then (Inl CouponNotActiveOrExpired, d)
            else if (case coupon_maxUses c of
                       None \<Rightarrow> False
                     | Some m \<Rightarrow> m \<noteq> 0 \<and> coupon_usesCount c \<ge> m)
            then (Inl CouponUsageLimitReached, d)
            else
              (case findCart cartId d of
                 None \<Rightarrow> (Inl CartNotFound, d)
               | Some _ \<Rightarrow>
                   (case reduceCartTotal (db_products d) 0 (itemsOfCart cartId d) of
                      None \<Rightarrow> (Inl TypeError, d)
                    | Some cartTotal \<Rightarrow>
                        if (case coupon_minPurchase c of
                              None \<Rightarrow> False
                            | Some m \<Rightarrow> m \<noteq> 0 \<and> cartTotal < m)
                        then (Inl (MinimumPurchaseRequired
                                     (case coupon_minPurchase c of Some m \<Rightarrow> m | None \<Rightarrow> 0)), d)
                        else
                          (let discountAmount = couponDiscountAmount c cartTotal;
                               d1 = d\<lparr>db_coupons :=
                                        map (\<lambda>k. if coupon_id k = coupon_id c
                                                  then k\<lparr>coupon_usesCount := coupon_usesCount k + 1\<rparr>
                                                  else k) (db_coupons d)\<rparr>
                           in case updateCart cartId
                                     (\<lambda>k. k\<lparr>cart_discountAmount := discountAmount,
                                             cart_couponCode := Some code\<rparr>) d1 of
                                (Inl e, d2) \<Rightarrow> (Inl e, d2)
                              | (Inr _, d2) \<Rightarrow>
                                  (Inr \<lparr>app_cartId = cartId, app_discountAmount = discountAmount,
                                        app_couponCode = code\<rparr>, d2)))))"

definition removeCoupon :: "user option \<Rightarrow> ident \<Rightarrow> db \<Rightarrow> (error + bool) \<times> db" where
  "removeCoupon usr cartId d =
     (if usr = None then (Inl AuthenticationError, d)
      else
        case updateCart cartId (\<lambda>k. k\<lparr>cart_discountAmount := 0, cart_couponCode := None\<rparr>) d of
          (Inl e, d1) \<Rightarrow> (Inl e, d1)
        | (Inr _, d1) \<Rightarrow> (Inr True, d1))"

subsection \<open>The mutating operations of CartRepository as one step function\<close>

datatype cartOp =
    AddItem ident ident cartItemInput
  | UpdateItem ident int
  | RemoveItem ident
  | ClearCart ident
  | ApplyPromoCode date ident string
  | RemovePromoCode ident

fun runCartOp :: "cartOp \<Rightarrow> db \<Rightarrow> (error + cart option) \<times> db" where
  "runCartOp (AddItem newId cartId item) d = addItem newId cartId item d"
| "runCartOp (UpdateItem cartItemId quantity) d = updateItem cartItemId quantity d"
| "runCartOp (RemoveItem cartItemId) d = removeItem cartItemId d"
| "runCartOp (ClearCart cartId) d = clearCart cartId d"
| "runCartOp (ApplyPromoCode now cartId code) d = applyPromoCode now cartId code d"
| "runCartOp (RemovePromoCode cartId) d = removePromoCode cartId d"

definition totalsConsistent :: "cart \<Rightarrow> bool" where
  "totalsConsistent c =
     (cart_total c = cart_subtotal c - cart_discount c + cart_tax c + cart_shipping c)"

definition totalsZero :: "cart \<Rightarrow> bool" where
  "totalsZero c =
     (cart_subtotal c = 0 \<and> cart_discount c = 0 \<and> cart_tax c = 0 \<and> cart_shipping c = 0
      \<and> cart_total c = 0)"

definition cartsConsistent :: "db \<Rightarrow> bool" where
  "cartsConsistent d = list_all totalsConsistent (db_carts d)"

text \<open>The write that ends \<open>recalculateCartTotals\<close>, with the four computed amounts named.\<close>

definition setTotals :: "rat \<Rightarrow> rat \<Rightarrow> rat \<Rightarrow> rat \<Rightarrow> cart \<Rightarrow> cart" where
  "setTotals s di t sh c = c\<lparr>cart_subtotal := s, cart_discount := di, cart_tax := t,
                        cart_shipping := sh, cart_total := s - di + t + sh\<rparr>"

text \<open>
  What a repository operation promises about the cart \<open>cid\<close>: consistent carts stay
  consistent whether it throws or not, and when it returns, it returns the stored row of
  \<open>cid\<close>, whose total is consistent.
\<close>

definition returnsConsistentCart :: "ident \<Rightarrow> db \<Rightarrow> (error + cart option) \<times> db \<Rightarrow> bool" where
  "returnsConsistentCart cid d out =
     ((cartsConsistent d \<longrightarrow> cartsConsistent (snd out)) \<and>
      (\<forall>r. fst out = Inr r \<longrightarrow>
         (\<exists>c. r = Some c \<and> findCart cid (snd out) = Some c \<and> cart_id c = cid \<and> totalsConsistent c)))"

text \<open>The cart an operation works on: named by the call, or the cart of the named row.\<close>

fun targetCartId :: "cartOp \<Rightarrow> db \<Rightarrow> ident option" where
  "targetCartId (AddItem newId cartId item) d = Some cartId"
| "targetCartId (UpdateItem cartItemId quantity) d = map_option item_cartId (findCartItem cartItemId d)"
| "targetCartId (RemoveItem cartItemId) d = map_option item_cartId (findCartItem cartItemId d)"
| "targetCartId (ClearCart cartId) d = Some cartId"
| "targetCartId (ApplyPromoCode now cartId code) d = Some cartId"
| "targetCartId (RemovePromoCode cartId) d = Some cartId"

fun isClearCart :: "cartOp \<Rightarrow> bool" where
  "isClearCart (ClearCart cartId) = True"
| "isClearCart _ = False"

text \<open>The sum the specification names: captured unit price times quantity, over the rows.\<close>

definition capturedSubtotal :: "cartItem list \<Rightarrow> rat" where
  "capturedSubtotal items = sum_list (map (\<lambda>i. item_price i * of_int (item_quantity i)) items)"

subsection \<open>A small shop, for concrete runs\<close>

definition widget :: product where
  "widget = \<lparr>product_id = ''p1'', product_price = 50,
             product_variants = [\<lparr>variant_id = ''v1'', variant_price = 60\<rparr>]\<rparr>"

definition gadget :: product where
  "gadget = \<lparr>product_id = ''p2'', product_price = 30, product_variants = []\<rparr>"

definition newCart :: cart where
  "newCart = \<lparr>cart_id = ''c1'', cart_userId = Some ''u1'', cart_subtotal = 0, cart_tax = 0,
              cart_shipping = 0, cart_discount = 0, cart_total = 0, cart_promoCodeId = None,
              cart_discountAmount = 0, cart_couponCode = None\<rparr>"

definition save20Promo :: promoCode where
  "save20Promo = \<lparr>promo_id = ''pc1'', promo_code = ''SAVE20'', promo_discount = 20,
                  promo_isPercentage = True, promo_expiresAt = Some 2000\<rparr>"

definition save20 :: coupon where
  "save20 = \<lparr>coupon_id = ''k1'', coupon_code = ''SAVE20'', coupon_isActive = True,
             coupon_startDate = 0, coupon_endDate = 2000, coupon_maxUses = Some 1,
             coupon_usesCount = 0, coupon_minPurchase = None, coupon_discountType = PERCENTAGE,
             coupon_discountValue = 20, coupon_maxDiscount = None\<rparr>"

definition fixed50 :: coupon where
  "fixed50 = \<lparr>coupon_id = ''k2'', coupon_code = ''FIXED50'', coupon_isActive = True,
              coupon_startDate = 0, coupon_endDate = 2000, coupon_maxUses = None,
              coupon_usesCount = 0, coupon_minPurchase = None, coupon_discountType = FIXED_AMOUNT,
              coupon_discountValue = 50, coupon_maxDiscount = None\<rparr>"

definition zeroLimit :: coupon where
  "zeroLimit = \<lparr>coupon_id = ''k3'', coupon_code = ''NEVER'', coupon_isActive = True,
                coupon_startDate = 0, coupon_endDate = 2000, coupon_maxUses = Some 0,
                coupon_usesCount = 0, coupon_minPurchase = None, coupon_discountType = PERCENTAGE,
                coupon_discountValue = 10, coupon_maxDiscount = None\<rparr>"

definition shopDb :: db where
  "shopDb = \<lparr>db_products = [widget, gadget], db_cartItems = [], db_carts = [newCart],
             db_promoCodes = [save20Promo], db_coupons = [save20, fixed50, zeroLimit]\<rparr>"

definition shopper :: user where
  "shopper = \<lparr>user_id = ''u1'', user_role = ''CUSTOMER''\<rparr>"

definition addWidgets :: "int \<Rightarrow> cartItemInput" where
  "addWidgets q = \<lparr>in_productId = ''p1'', in_variantId = None, in_quantity = q\<rparr>"

definition addGadgets :: "int \<Rightarrow> cartItemInput" where
  "addGadgets q = \<lparr>in_productId = ''p2'', in_variantId = None, in_quantity = q\<rparr>"

text \<open>The shop after two widgets went into the cart (see \<open>addItem_two_widgets\<close>).\<close>

definition twoWidgets :: cartItem where
  "twoWidgets = \<lparr>item_id = ''i1'', item_cartId = ''c1'', item_productId = ''p1'',
                 item_variantId = None, item_quantity = 2, item_price = 50, item_total = 100\<rparr>"

definition widgetCart :: cart where
  "widgetCart = newCart\<lparr>cart_subtotal := 100, cart_discount := 0, cart_tax := 10,
                        cart_shipping := 10, cart_total := 120\<rparr>"

definition widgetDb :: db where
  "widgetDb = shopDb\<lparr>db_cartItems := [twoWidgets], db_carts := [widgetCart]\<rparr>"

definition discountedCart :: cart where
  "discountedCart = widgetCart\<lparr>cart_discount := 20, cart_tax := 8, cart_total := 98,
                               cart_promoCodeId := Some ''pc1''\<rparr>"

definition discountedDb :: db where
  "discountedDb = widgetDb\<lparr>db_carts := [discountedCart]\<rparr>"

text \<open>The shop after the coupon \<^verbatim>\<open>SAVE20\<close> was applied to the cart of two widgets.\<close>

definition couponCart :: cart where
  "couponCart = widgetCart\<lparr>cart_discountAmount := 20, cart_couponCode := Some ''SAVE20''\<rparr>"

definition couponDb :: db where
  "couponDb = widgetDb\<lparr>db_carts := [couponCart],
                       db_coupons := [save20\<lparr>coupon_usesCount := 1\<rparr>, fixed50, zeroLimit]\<rparr>"

text \<open>The shop after one gadget went into the cart (see \<open>addItem_one_gadget\<close>).\<close>

definition oneGadget :: cartItem where
  "oneGadget = \<lparr>item_id = ''i1'', item_cartId = ''c1'', item_productId = ''p2'',
                item_variantId = None, item_quantity = 1, item_price = 30, item_total = 30\<rparr>"

definition gadgetCart :: cart where
  "gadgetCart = newCart\<lparr>cart_subtotal := 30, cart_discount := 0, cart_tax := 3,
                        cart_shipping := 10, cart_total := 43\<rparr>"

definition gadgetDb :: db where
  "gadgetDb = shopDb\<lparr>db_cartItems := [oneGadget], db_carts := [gadgetCart]\<rparr>"

text \<open>The catalog after the price of the widget went from 50 to 80.\<close>

definition dearWidgetDb :: db where
  "dearWidgetDb = widgetDb\<lparr>db_products := [widget\<lparr>product_price := 80\<rparr>, gadget]\<rparr>"

section \<open>Properties\<close>

lemmas shop_defs = shopDb_def widget_def gadget_def newCart_def save20Promo_def save20_def
  fixed50_def zeroLimit_def shopper_def addWidgets_def addGadgets_def twoWidgets_def
  widgetCart_def widgetDb_def discountedCart_def discountedDb_def

lemmas op_defs = addItem_def updateItem_def removeItem_def clearCart_def applyPromoCode_def
  removePromoCode_def recalculateCartTotals_def updateCart_def findCart_def findCartItem_def
  updateCartItem_def itemsOfCart_def sameLine_def findById_def orNull_def truthyString_def
  applyCoupon_def removeCoupon_def couponDiscountAmount_def

subsection \<open>Table access\<close>

lemma find_map_same_key:
  assumes "\<And>c. cart_id (f c) = cart_id c"
  shows "find (\<lambda>c. cart_id c = cid) (map (\<lambda>c. if cart_id c = k then f c else c) xs)
         = map_option (\<lambda>c. if cart_id c = k then f c else c) (find (\<lambda>c. cart_id c = cid) xs)"
  using assms by (induction xs) auto

lemma find_Some_key: "find (\<lambda>c. cart_id c = cid) xs = Some c \<Longrightarrow> cart_id c = cid"
  by (induction xs) (auto split: if_splits)

lemma updateCart_Inl: "updateCart cid f d = (Inl e, d') \<Longrightarrow> d' = d"
  by (auto simp: updateCart_def split: option.splits)

lemma updateCart_Inr:
  assumes "updateCart cid f d = (Inr u, d')" and "\<And>c. cart_id (f c) = cart_id c"
  shows "\<exists>c0. findCart cid d = Some c0 \<and> findCart cid d' = Some (f c0)
          \<and> d' = d\<lparr>db_carts := map (\<lambda>c. if cart_id c = cid then f c else c) (db_carts d)\<rparr>"
proof -
  from assms(1) obtain c0 where c0: "findCart cid d = Some c0"
    and d': "d' = d\<lparr>db_carts := map (\<lambda>c. if cart_id c = cid then f c else c) (db_carts d)\<rparr>"
    by (auto simp: updateCart_def split: option.splits)
  have k: "cart_id c0 = cid"
    using c0 unfolding findCart_def by (rule find_Some_key)
  have "findCart cid d' = Some (f c0)"
    using c0 k unfolding d' findCart_def by (simp add: find_map_same_key [OF assms(2)])
  with c0 d' show ?thesis by blast
qed

lemma updateCart_consistent:
  assumes "updateCart cid f d = (r, d')" and "\<And>c. totalsConsistent c \<Longrightarrow> totalsConsistent (f c)"
    and "cartsConsistent d"
  shows "cartsConsistent d'"
  using assms by (auto simp: updateCart_def cartsConsistent_def list_all_iff split: option.splits)

lemma updateCart_keeps:
  assumes "\<And>c. totalsConsistent c \<Longrightarrow> totalsConsistent (f c)"
  shows "cartsConsistent d \<longrightarrow> cartsConsistent (snd (updateCart cid f d))"
  using assms by (auto simp: updateCart_def cartsConsistent_def list_all_iff split: option.splits)

lemma cartsConsistent_items [simp]:
  "cartsConsistent (d\<lparr>db_cartItems := xs\<rparr>) = cartsConsistent d"
  by (simp add: cartsConsistent_def)

subsection \<open>Recalculation\<close>

lemma recalculate_unfold:
  "\<exists>s di t sh. recalculateCartTotals cid d =
     (case findCart cid d of None \<Rightarrow> (Inl (CartWithIdNotFound cid), d)
      | Some c \<Rightarrow> updateCart cid (setTotals s di t sh) d)"
proof (cases "findCart cid d")
  case None
  then show ?thesis by (simp add: recalculateCartTotals_def)
next
  case (Some c)
  show ?thesis
    unfolding recalculateCartTotals_def Let_def setTotals_def Some option.case
    by (intro exI) (rule refl)
qed

lemma totalsConsistent_setTotals: "totalsConsistent (setTotals s di t sh c)"
  by (simp add: totalsConsistent_def setTotals_def)

lemma cart_id_setTotals: "cart_id (setTotals s di t sh c) = cart_id c"
  by (simp add: setTotals_def)

lemma recalculate_Inr:
  assumes "recalculateCartTotals cid d = (Inr u, d')"
  shows "\<exists>c. findCart cid d' = Some c \<and> cart_id c = cid \<and> totalsConsistent c"
proof -
  obtain s di t sh where eq: "recalculateCartTotals cid d =
     (case findCart cid d of None \<Rightarrow> (Inl (CartWithIdNotFound cid), d)
      | Some c \<Rightarrow> updateCart cid (setTotals s di t sh) d)"
    using recalculate_unfold by blast
  from assms eq have up: "updateCart cid (setTotals s di t sh) d = (Inr u, d')"
    by (cases "findCart cid d") simp_all
  from updateCart_Inr [OF up cart_id_setTotals]
  obtain c0 where c0: "findCart cid d = Some c0"
    and c1: "findCart cid d' = Some (setTotals s di t sh c0)" by blast
  have "cart_id c0 = cid" using c0 unfolding findCart_def by (rule find_Some_key)
  with c1 show ?thesis
    by (simp add: totalsConsistent_setTotals cart_id_setTotals)
qed

lemma recalculate_consistent:
  assumes "recalculateCartTotals cid d = (r, d')" and "cartsConsistent d"
  shows "cartsConsistent d'"
proof -
  obtain s di t sh where eq: "recalculateCartTotals cid d =
     (case findCart cid d of None \<Rightarrow> (Inl (CartWithIdNotFound cid), d)
      | Some c \<Rightarrow> updateCart cid (setTotals s di t sh) d)"
    using recalculate_unfold by blast
  show ?thesis
  proof (cases "findCart cid d")
    case None
    with assms eq show ?thesis by simp
  next
    case (Some c)
    with assms(1) eq have "updateCart cid (setTotals s di t sh) d = (r, d')" by simp
    then show ?thesis
      by (rule updateCart_consistent) (simp_all add: totalsConsistent_setTotals assms(2))
  qed
qed

lemma recalculate_and_return:
  assumes "cartsConsistent d \<longrightarrow> cartsConsistent d1"
  shows "returnsConsistentCart cid d
           (case recalculateCartTotals cid d1 of
              (Inl e, d2) \<Rightarrow> (Inl e, d2)
            | (Inr u, d2) \<Rightarrow> findById cid d2)"
proof (cases "recalculateCartTotals cid d1")
  case (Pair r d2)
  have cons: "cartsConsistent d \<Longrightarrow> cartsConsistent d2"
    using recalculate_consistent [OF Pair] assms by simp
  show ?thesis
  proof (cases r)
    case (Inl e)
    with Pair cons show ?thesis by (simp add: returnsConsistentCart_def)
  next
    case (Inr u)
    with Pair recalculate_Inr [of cid d1 u d2] cons show ?thesis
      by (auto simp: returnsConsistentCart_def findById_def)
  qed
qed

lemma returnsConsistentCart_fail: "returnsConsistentCart cid d (Inl e, d)"
  by (simp add: returnsConsistentCart_def)

subsection \<open>Each repository operation returns a consistent cart\<close>

lemma addItem_consistent: "returnsConsistentCart cartId d (addItem newId cartId item d)"
  unfolding addItem_def Let_def
  by (auto split: option.splits simp: returnsConsistentCart_fail updateCartItem_def
      intro!: recalculate_and_return)

lemma updateItem_consistent:
  "returnsConsistentCart (case findCartItem cartItemId d of Some i \<Rightarrow> item_cartId i | None \<Rightarrow> x) d
     (updateItem cartItemId quantity d)"
  unfolding updateItem_def Let_def
  by (auto split: option.splits simp: returnsConsistentCart_fail updateCartItem_def
      intro!: recalculate_and_return)

lemma removeItem_consistent:
  "returnsConsistentCart (case findCartItem cartItemId d of Some i \<Rightarrow> item_cartId i | None \<Rightarrow> x) d
     (removeItem cartItemId d)"
  unfolding removeItem_def Let_def
  by (auto split: option.splits simp: returnsConsistentCart_fail
      intro!: recalculate_and_return)

lemma clearCart_consistent: "returnsConsistentCart cartId d (clearCart cartId d)"
proof -
  let ?f = "\<lambda>c. c\<lparr>cart_subtotal := 0, cart_tax := 0, cart_shipping := 0, cart_discount := 0,
                   cart_total := 0, cart_promoCodeId := None\<rparr>"
  let ?d1 = "d\<lparr>db_cartItems := filter (\<lambda>i. item_cartId i \<noteq> cartId) (db_cartItems d)\<rparr>"
  obtain r d2 where up: "updateCart cartId ?f ?d1 = (r, d2)" by (cases "updateCart cartId ?f ?d1")
  have cons: "cartsConsistent d \<Longrightarrow> cartsConsistent d2"
    by (rule updateCart_consistent [OF up]) (simp_all add: totalsConsistent_def)
  show ?thesis
  proof (cases r)
    case (Inl e)
    with up cons show ?thesis by (simp add: clearCart_def returnsConsistentCart_def)
  next
    case (Inr u)
    with up have "updateCart cartId ?f ?d1 = (Inr u, d2)" by simp
    from updateCart_Inr [OF this] obtain c0 where "findCart cartId ?d1 = Some c0"
      and "findCart cartId d2 = Some (?f c0)" by auto
    moreover have "cart_id c0 = cartId"
      using \<open>findCart cartId ?d1 = Some c0\<close> unfolding findCart_def by (rule find_Some_key)
    ultimately show ?thesis using up Inr cons
      by (simp add: clearCart_def returnsConsistentCart_def findById_def totalsConsistent_def)
  qed
qed

lemma clearCart_zero:
  assumes "clearCart cartId d = (Inr r, d')"
  shows "\<exists>c. r = Some c \<and> totalsZero c"
proof -
  let ?f = "\<lambda>c. c\<lparr>cart_subtotal := 0, cart_tax := 0, cart_shipping := 0, cart_discount := 0,
                   cart_total := 0, cart_promoCodeId := None\<rparr>"
  let ?d1 = "d\<lparr>db_cartItems := filter (\<lambda>i. item_cartId i \<noteq> cartId) (db_cartItems d)\<rparr>"
  from assms obtain u d2 where up: "updateCart cartId ?f ?d1 = (Inr u, d2)"
    and r: "findById cartId d2 = (Inr r, d')"
    by (auto simp: clearCart_def Let_def split: prod.splits sum.splits)
  from updateCart_Inr [OF up] obtain c0 where c0: "findCart cartId d2 = Some (?f c0)" by auto
  from r have "r = findCart cartId d2" by (auto simp: findById_def)
  with c0 show ?thesis by (simp add: totalsZero_def)
qed

lemma applyPromoCode_consistent:
  "returnsConsistentCart cartId d (applyPromoCode now cartId code d)"
proof -
  have "returnsConsistentCart cartId d
          (case updateCart cartId (\<lambda>c. c\<lparr>cart_promoCodeId := Some pid\<rparr>) d of
             (Inl e, d1) \<Rightarrow> (Inl e, d1)
           | (Inr u, d1) \<Rightarrow>
               (case recalculateCartTotals cartId d1 of
                  (Inl e, d2) \<Rightarrow> (Inl e, d2)
                | (Inr u, d2) \<Rightarrow> findById cartId d2))" for pid
  proof (cases "updateCart cartId (\<lambda>c. c\<lparr>cart_promoCodeId := Some pid\<rparr>) d")
    case (Pair r d1)
    have k: "cartsConsistent d \<longrightarrow> cartsConsistent d1"
      using updateCart_keeps [of "\<lambda>c. c\<lparr>cart_promoCodeId := Some pid\<rparr>" d cartId] Pair
      by (simp add: totalsConsistent_def)
    show ?thesis
    proof (cases r)
      case (Inl e)
      with Pair k show ?thesis by (simp add: returnsConsistentCart_def)
    next
      case (Inr u)
      with Pair recalculate_and_return [OF k, of cartId] show ?thesis by simp
    qed
  qed
  then show ?thesis
    unfolding applyPromoCode_def
    by (auto split: option.splits simp: returnsConsistentCart_fail)
qed

lemma removePromoCode_consistent:
  "returnsConsistentCart cartId d (removePromoCode cartId d)"
proof (cases "updateCart cartId (\<lambda>c. c\<lparr>cart_promoCodeId := None\<rparr>) d")
  case (Pair r d1)
  have k: "cartsConsistent d \<longrightarrow> cartsConsistent d1"
    using updateCart_keeps [of "\<lambda>c. c\<lparr>cart_promoCodeId := None\<rparr>" d cartId] Pair
    by (simp add: totalsConsistent_def)
  show ?thesis
  proof (cases r)
    case (Inl e)
    with Pair k show ?thesis by (simp add: removePromoCode_def returnsConsistentCart_def)
  next
    case (Inr u)
    with Pair recalculate_and_return [OF k, of cartId] show ?thesis
      by (simp add: removePromoCode_def)
  qed
qed

subsection \<open>Concrete runs in the small shop\<close>

lemma addItem_two_widgets:
  "addItem ''i1'' ''c1'' (addWidgets 2) shopDb = (Inr (Some widgetCart), widgetDb)"
  by (simp add: shop_defs op_defs)

subsection \<open>The total is consistent after every mutation\<close>

text \<open>
  C1. Whichever of \<open>addItem\<close>, \<open>updateItem\<close>, \<open>removeItem\<close>, \<open>clearCart\<close>,
  \<open>applyPromoCode\<close> and \<open>removePromoCode\<close> runs, on any database: when it returns, the
  cart it returns is the stored row of the cart it worked on, and that row satisfies
  \<open>total = subtotal - discount + tax + shipping\<close>; after \<open>clearCart\<close> subtotal, discount,
  tax, shipping and total are all zero. Moreover, returning or throwing, the operation
  leaves every cart of the database consistent if every cart was consistent before.
\<close>

theorem total_invariant:
  assumes "runCartOp op d = (res, d')"
  shows "(cartsConsistent d \<longrightarrow> cartsConsistent d') \<and>
         (\<forall>r. res = Inr r \<longrightarrow>
            (\<exists>c. r = Some c \<and> targetCartId op d = Some (cart_id c)
                 \<and> findCart (cart_id c) d' = Some c
                 \<and> cart_total c = cart_subtotal c - cart_discount c + cart_tax c + cart_shipping c
                 \<and> (isClearCart op \<longrightarrow> totalsZero c)))"
proof (cases op)
  case (AddItem newId cartId item)
  with assms addItem_consistent [where cartId=cartId and d=d and newId=newId and item=item]
  show ?thesis
    by (auto simp: returnsConsistentCart_def totalsConsistent_def)
next
  case (UpdateItem cartItemId quantity)
  show ?thesis
  proof (cases "findCartItem cartItemId d")
    case None
    with assms UpdateItem show ?thesis by (auto simp: updateItem_def)
  next
    case (Some i)
    with assms UpdateItem
      updateItem_consistent [where cartItemId=cartItemId and d=d and quantity=quantity]
    show ?thesis
      by (auto simp: returnsConsistentCart_def totalsConsistent_def)
  qed
next
  case (RemoveItem cartItemId)
  show ?thesis
  proof (cases "findCartItem cartItemId d")
    case None
    with assms RemoveItem show ?thesis by (auto simp: removeItem_def)
  next
    case (Some i)
    with assms RemoveItem removeItem_consistent [where cartItemId=cartItemId and d=d]
    show ?thesis
      by (auto simp: returnsConsistentCart_def totalsConsistent_def)
  qed
next
  case (ClearCart cartId)
  with assms clearCart_consistent [where cartId=cartId and d=d]
    clearCart_zero [where cartId=cartId and d=d and d'=d']
  show ?thesis
    by (auto simp: returnsConsistentCart_def totalsConsistent_def)
next
  case (ApplyPromoCode now cartId code)
  with assms applyPromoCode_consistent [where cartId=cartId and d=d and now=now and code=code]
  show ?thesis
    by (auto simp: returnsConsistentCart_def totalsConsistent_def)
next
  case (RemovePromoCode cartId)
  with assms removePromoCode_consistent [where cartId=cartId and d=d]
  show ?thesis
    by (auto simp: returnsConsistentCart_def totalsConsistent_def)
qed

theorem total_invariant_witness:
  "cartsConsistent widgetDb
   \<and> runCartOp (ClearCart ''c1'') widgetDb = (Inr (Some newCart), shopDb)
   \<and> isClearCart (ClearCart ''c1'') \<and> cartsConsistent shopDb \<and> totalsZero newCart
   \<and> cart_total newCart
       = cart_subtotal newCart - cart_discount newCart + cart_tax newCart + cart_shipping newCart
   \<and> runCartOp (ApplyPromoCode 1000 ''c1'' ''SAVE20'') widgetDb
       = (Inr (Some discountedCart), discountedDb)
   \<and> cart_total discountedCart
       = cart_subtotal discountedCart - cart_discount discountedCart + cart_tax discountedCart
         + cart_shipping discountedCart
   \<and> cart_total discountedCart = 98"
proof -
  have w: "cartsConsistent widgetDb"
    by (simp add: cartsConsistent_def totalsConsistent_def shop_defs)
  have h1: "runCartOp (ClearCart ''c1'') widgetDb = (Inr (Some newCart), shopDb)"
    by (simp add: shop_defs op_defs)
  have h2: "runCartOp (ApplyPromoCode 1000 ''c1'' ''SAVE20'') widgetDb
              = (Inr (Some discountedCart), discountedDb)"
    by (simp add: shop_defs op_defs)
  have t: "cart_total discountedCart = 98"
    by (simp add: shop_defs)
  from total_invariant [OF h1] total_invariant [OF h2] w h1 h2 t show ?thesis
    by simp
qed

subsection \<open>A failed applyPromoCode writes nothing\<close>

lemma find_map_pred:
  assumes "\<And>x. P (g x) = P x"
  shows "find P (map g xs) = map_option g (find P xs)"
  using assms by (induction xs) auto

lemma recalculate_found:
  assumes "findCart cid d = Some c"
  shows "\<exists>d'. recalculateCartTotals cid d = (Inr (), d')"
proof -
  obtain s di t sh where eq: "recalculateCartTotals cid d =
     (case findCart cid d of None \<Rightarrow> (Inl (CartWithIdNotFound cid), d)
      | Some c \<Rightarrow> updateCart cid (setTotals s di t sh) d)"
    using recalculate_unfold by blast
  with assms show ?thesis by (simp add: updateCart_def)
qed

lemma applyPromoCode_Inl:
  assumes "applyPromoCode now cartId code d = (Inl e, d')"
  shows "d' = d"
proof (cases "find (\<lambda>p. promo_code p = code) (db_promoCodes d)")
  case None
  with assms show ?thesis by (simp add: applyPromoCode_def)
next
  case (Some promo)
  show ?thesis
  proof (cases "case promo_expiresAt promo of None \<Rightarrow> False | Some t \<Rightarrow> t < now")
    case True
    with Some assms show ?thesis by (simp add: applyPromoCode_def)
  next
    case False
    let ?f = "\<lambda>c. c\<lparr>cart_promoCodeId := Some (promo_id promo)\<rparr>"
    obtain r d1 where up: "updateCart cartId ?f d = (r, d1)" by (cases "updateCart cartId ?f d")
    show ?thesis
    proof (cases r)
      case (Inl e1)
      with up Some False assms updateCart_Inl [of cartId ?f d e1 d1] show ?thesis
        by (simp add: applyPromoCode_def)
    next
      case (Inr u)
      with up have up': "updateCart cartId ?f d = (Inr u, d1)" by simp
      from updateCart_Inr [OF up'] obtain c0 where "findCart cartId d1 = Some (?f c0)" by auto
      from recalculate_found [OF this] obtain d2
        where "recalculateCartTotals cartId d1 = (Inr (), d2)" by blast
      with up' Some False assms show ?thesis
        by (simp add: applyPromoCode_def findById_def)
    qed
  qed
qed

text \<open>
  C10. \<open>applyPromoCode\<close> throws before it writes: when the code is not found, and when
  the code has expired, the call returns the matching error and the database it was
  given; and whatever error the call throws, the database (the cart's promo code, its
  rows and its five amounts included) is as it was before the call.
\<close>

theorem applyPromoCode_failure_atomic:
  "(find (\<lambda>p. promo_code p = code) (db_promoCodes d) = None \<longrightarrow>
      applyPromoCode now cartId code d = (Inl (PromoCodeNotFound code), d))
   \<and> (\<forall>p t. find (\<lambda>p. promo_code p = code) (db_promoCodes d) = Some p
             \<and> promo_expiresAt p = Some t \<and> t < now \<longrightarrow>
          applyPromoCode now cartId code d = (Inl (PromoCodeExpired code), d))
   \<and> (\<forall>e. fst (applyPromoCode now cartId code d) = Inl e \<longrightarrow>
          snd (applyPromoCode now cartId code d) = d)"
proof (intro conjI allI impI)
  assume "find (\<lambda>p. promo_code p = code) (db_promoCodes d) = None"
  then show "applyPromoCode now cartId code d = (Inl (PromoCodeNotFound code), d)"
    by (simp add: applyPromoCode_def)
next
  fix p t
  assume "find (\<lambda>p. promo_code p = code) (db_promoCodes d) = Some p
             \<and> promo_expiresAt p = Some t \<and> t < now"
  then show "applyPromoCode now cartId code d = (Inl (PromoCodeExpired code), d)"
    by (simp add: applyPromoCode_def)
next
  fix e
  assume "fst (applyPromoCode now cartId code d) = Inl e"
  then have "applyPromoCode now cartId code d = (Inl e, snd (applyPromoCode now cartId code d))"
    by (metis prod.collapse)
  then show "snd (applyPromoCode now cartId code d) = d"
    by (rule applyPromoCode_Inl)
qed

theorem applyPromoCode_failure_atomic_witness:
  "find (\<lambda>p. promo_code p = ''NOPE'') (db_promoCodes discountedDb) = None
   \<and> applyPromoCode 1000 ''c1'' ''NOPE'' discountedDb = (Inl (PromoCodeNotFound ''NOPE''), discountedDb)
   \<and> find (\<lambda>p. promo_code p = ''SAVE20'') (db_promoCodes widgetDb) = Some save20Promo
   \<and> promo_expiresAt save20Promo = Some 2000 \<and> (2000::int) < 3000
   \<and> applyPromoCode 3000 ''c1'' ''SAVE20'' widgetDb = (Inl (PromoCodeExpired ''SAVE20''), widgetDb)
   \<and> fst (applyPromoCode 1000 ''c9'' ''SAVE20'' widgetDb) = Inl RecordNotFound
   \<and> snd (applyPromoCode 1000 ''c9'' ''SAVE20'' widgetDb) = widgetDb"
proof -
  have a: "find (\<lambda>p. promo_code p = ''NOPE'') (db_promoCodes discountedDb) = None"
    by (simp add: shop_defs)
  have b: "find (\<lambda>p. promo_code p = ''SAVE20'') (db_promoCodes widgetDb) = Some save20Promo
            \<and> promo_expiresAt save20Promo = Some 2000 \<and> (2000::int) < 3000"
    by (simp add: shop_defs)
  have c: "fst (applyPromoCode 1000 ''c9'' ''SAVE20'' widgetDb) = Inl RecordNotFound"
    by (simp add: shop_defs op_defs)
  from applyPromoCode_failure_atomic [of "''NOPE''" discountedDb 1000 "''c1''"]
    applyPromoCode_failure_atomic [of "''SAVE20''" widgetDb 3000 "''c1''"]
    applyPromoCode_failure_atomic [of "''SAVE20''" widgetDb 1000 "''c9''"]
    a b c
  show ?thesis by blast
qed

subsection \<open>Removing a coupon\<close>

lemmas coupon_defs = couponCart_def couponDb_def

lemma recalculate_no_promo:
  assumes "findCart cid d = Some c" and "cart_promoCodeId c = None"
  shows "\<exists>s t sh. recalculateCartTotals cid d = updateCart cid (setTotals s 0 t sh) d"
  unfolding recalculateCartTotals_def Let_def setTotals_def assms option.case
  by (intro exI) (rule refl)

lemma recalculate_frame:
  assumes "recalculateCartTotals cid d = (r, d')"
  shows "db_cartItems d' = db_cartItems d \<and> db_products d' = db_products d
         \<and> db_promoCodes d' = db_promoCodes d \<and> db_coupons d' = db_coupons d"
proof -
  obtain s di t sh where eq: "recalculateCartTotals cid d =
     (case findCart cid d of None \<Rightarrow> (Inl (CartWithIdNotFound cid), d)
      | Some c \<Rightarrow> updateCart cid (setTotals s di t sh) d)"
    using recalculate_unfold by blast
  with assms show ?thesis
    by (cases "findCart cid d") (auto simp: updateCart_def)
qed

text \<open>
  C9. On a cart that exists, \<open>removeCoupon\<close> (for a logged-in caller) sets the cart's
  coupon code to null and its discount amount to zero, and \<open>removePromoCode\<close> unlinks the
  promo code and recalculates, which makes the discount zero. Neither touches the coupon
  table, so no usage counter changes; \<open>removePromoCode\<close> leaves the promo codes as they
  were as well.
\<close>

theorem removeCoupon_keeps_usage:
  assumes "findCart cartId d = Some k"
  shows "(usr \<noteq> None \<longrightarrow>
            (\<exists>d'. removeCoupon usr cartId d = (Inr True, d')
                 \<and> findCart cartId d' = Some (k\<lparr>cart_discountAmount := 0, cart_couponCode := None\<rparr>)
                 \<and> db_coupons d' = db_coupons d))
         \<and> (\<exists>c d'. removePromoCode cartId d = (Inr (Some c), d')
                 \<and> findCart cartId d' = Some c
                 \<and> cart_promoCodeId c = None \<and> cart_discount c = 0
                 \<and> db_coupons d' = db_coupons d \<and> db_promoCodes d' = db_promoCodes d)"
proof (intro conjI impI)
  assume "usr \<noteq> None"
  let ?f = "\<lambda>k. k\<lparr>cart_discountAmount := 0, cart_couponCode := None\<rparr>"
  obtain d1 where up: "updateCart cartId ?f d = (Inr (), d1)"
    using assms by (simp add: updateCart_def)
  from updateCart_Inr [OF up] assms have "findCart cartId d1 = Some (?f k)"
    and "db_coupons d1 = db_coupons d" by auto
  with up \<open>usr \<noteq> None\<close>
  show "\<exists>d'. removeCoupon usr cartId d = (Inr True, d')
                 \<and> findCart cartId d' = Some (?f k) \<and> db_coupons d' = db_coupons d"
    by (simp add: removeCoupon_def)
next
  let ?f = "\<lambda>c. c\<lparr>cart_promoCodeId := None\<rparr>"
  obtain d1 where up: "updateCart cartId ?f d = (Inr (), d1)"
    using assms by (simp add: updateCart_def)
  from updateCart_Inr [OF up] assms have k1: "findCart cartId d1 = Some (?f k)"
    and f1: "db_coupons d1 = db_coupons d" "db_promoCodes d1 = db_promoCodes d" by auto
  from recalculate_no_promo [OF k1] obtain s t sh
    where rec: "recalculateCartTotals cartId d1 = updateCart cartId (setTotals s 0 t sh) d1"
    by auto
  obtain d2 where up2: "updateCart cartId (setTotals s 0 t sh) d1 = (Inr (), d2)"
    using k1 by (simp add: updateCart_def)
  from updateCart_Inr [OF up2 cart_id_setTotals] k1
  have k2: "findCart cartId d2 = Some (setTotals s 0 t sh (?f k))"
    and f2: "db_coupons d2 = db_coupons d1" "db_promoCodes d2 = db_promoCodes d1" by auto
  have "removePromoCode cartId d = (Inr (Some (setTotals s 0 t sh (?f k))), d2)"
    using up rec up2 k2 by (simp add: removePromoCode_def findById_def)
  with k2 f1 f2
  show "\<exists>c d'. removePromoCode cartId d = (Inr (Some c), d')
                 \<and> findCart cartId d' = Some c
                 \<and> cart_promoCodeId c = None \<and> cart_discount c = 0
                 \<and> db_coupons d' = db_coupons d \<and> db_promoCodes d' = db_promoCodes d"
    by (simp add: setTotals_def)
qed

theorem removeCoupon_keeps_usage_witness:
  "findCart ''c1'' couponDb = Some couponCart \<and> cart_couponCode couponCart = Some ''SAVE20''
   \<and> Some shopper \<noteq> None
   \<and> removeCoupon (Some shopper) ''c1'' couponDb = (Inr True, couponDb\<lparr>db_carts := [widgetCart]\<rparr>)
   \<and> db_coupons (couponDb\<lparr>db_carts := [widgetCart]\<rparr>) = db_coupons couponDb
   \<and> map coupon_usesCount (db_coupons couponDb) = [1, 0, 0]
   \<and> findCart ''c1'' discountedDb = Some discountedCart
   \<and> cart_promoCodeId discountedCart = Some ''pc1''
   \<and> removePromoCode ''c1'' discountedDb = (Inr (Some widgetCart), widgetDb)
   \<and> cart_promoCodeId widgetCart = None \<and> cart_discount widgetCart = 0
   \<and> db_coupons widgetDb = db_coupons discountedDb"
proof -
  have h1: "findCart ''c1'' couponDb = Some couponCart"
    by (simp add: shop_defs coupon_defs findCart_def)
  have e1: "removeCoupon (Some shopper) ''c1'' couponDb
              = (Inr True, couponDb\<lparr>db_carts := [widgetCart]\<rparr>)"
    by (simp add: shop_defs coupon_defs op_defs)
  have h2: "findCart ''c1'' discountedDb = Some discountedCart"
    by (simp add: shop_defs findCart_def)
  have e2: "removePromoCode ''c1'' discountedDb = (Inr (Some widgetCart), widgetDb)"
    by (simp add: shop_defs op_defs)
  have m: "cart_couponCode couponCart = Some ''SAVE20''
           \<and> map coupon_usesCount (db_coupons couponDb) = [1, 0, 0]
           \<and> cart_promoCodeId discountedCart = Some ''pc1''"
    by (simp add: shop_defs coupon_defs)
  from removeCoupon_keeps_usage [OF h1, of "Some shopper"] removeCoupon_keeps_usage [OF h2]
    h1 e1 h2 e2 m
  show ?thesis by auto
qed

subsection \<open>Applying a coupon\<close>

lemma applyCoupon_Inr:
  assumes "applyCoupon usr now code cartId d = (Inr app, d')"
  shows "\<exists>c k tot. usr \<noteq> None
           \<and> find (\<lambda>x. coupon_code x = code) (db_coupons d) = Some c
           \<and> findCart cartId d = Some k
           \<and> reduceCartTotal (db_products d) 0 (itemsOfCart cartId d) = Some tot
           \<and> app = \<lparr>app_cartId = cartId, app_discountAmount = couponDiscountAmount c tot,
                     app_couponCode = code\<rparr>
           \<and> d' = d\<lparr>db_coupons :=
                      map (\<lambda>x. if coupon_id x = coupon_id c
                                then x\<lparr>coupon_usesCount := coupon_usesCount x + 1\<rparr> else x)
                        (db_coupons d),
                    db_carts :=
                      map (\<lambda>x. if cart_id x = cartId
                                then x\<lparr>cart_discountAmount := couponDiscountAmount c tot,
                                       cart_couponCode := Some code\<rparr> else x)
                        (db_carts d)\<rparr>"
proof -
  from assms have u: "usr \<noteq> None"
    by (auto simp: applyCoupon_def split: if_splits)
  from assms u obtain c where c: "find (\<lambda>x. coupon_code x = code) (db_coupons d) = Some c"
    by (cases "find (\<lambda>x. coupon_code x = code) (db_coupons d)") (auto simp: applyCoupon_def)
  from assms u c obtain k where k: "findCart cartId d = Some k"
    by (cases "findCart cartId d") (auto simp: applyCoupon_def split: if_splits)
  from assms u c k obtain tot
    where t: "reduceCartTotal (db_products d) 0 (itemsOfCart cartId d) = Some tot"
    by (cases "reduceCartTotal (db_products d) 0 (itemsOfCart cartId d)")
       (auto simp: applyCoupon_def split: if_splits)
  from assms u c k t show ?thesis
    by (auto simp: applyCoupon_def updateCart_def findCart_def Let_def split: if_splits)
qed

text \<open>
  What a returning \<open>applyCoupon\<close> writes: the coupon found by the code has its usage
  counter one higher, and the cart holds the coupon code and the discount amount that
  the call returns; the call writes nothing else of the cart row and no row of the cart.
\<close>

lemma applyCoupon_redeems:
  assumes "applyCoupon usr now code cartId d = (Inr app, d')"
  shows "\<exists>c k. find (\<lambda>x. coupon_code x = code) (db_coupons d) = Some c
           \<and> find (\<lambda>x. coupon_code x = code) (db_coupons d')
               = Some (c\<lparr>coupon_usesCount := coupon_usesCount c + 1\<rparr>)
           \<and> findCart cartId d = Some k
           \<and> findCart cartId d'
               = Some (k\<lparr>cart_discountAmount := app_discountAmount app,
                         cart_couponCode := Some code\<rparr>)
           \<and> app_couponCode app = code
           \<and> db_cartItems d' = db_cartItems d"
proof -
  from applyCoupon_Inr [OF assms] obtain c k tot
    where c: "find (\<lambda>x. coupon_code x = code) (db_coupons d) = Some c"
      and k: "findCart cartId d = Some k"
      and app: "app = \<lparr>app_cartId = cartId, app_discountAmount = couponDiscountAmount c tot,
                       app_couponCode = code\<rparr>"
      and d': "d' = d\<lparr>db_coupons :=
                      map (\<lambda>x. if coupon_id x = coupon_id c
                                then x\<lparr>coupon_usesCount := coupon_usesCount x + 1\<rparr> else x)
                        (db_coupons d),
                    db_carts :=
                      map (\<lambda>x. if cart_id x = cartId
                                then x\<lparr>cart_discountAmount := couponDiscountAmount c tot,
                                       cart_couponCode := Some code\<rparr> else x)
                        (db_carts d)\<rparr>"
    by blast
  have kid: "cart_id k = cartId"
    using k unfolding findCart_def by (rule find_Some_key)
  have 1: "find (\<lambda>x. coupon_code x = code) (db_coupons d')
             = Some (c\<lparr>coupon_usesCount := coupon_usesCount c + 1\<rparr>)"
    unfolding d' using c by (simp add: find_map_pred)
  have 2: "findCart cartId d'
             = Some (k\<lparr>cart_discountAmount := app_discountAmount app, cart_couponCode := Some code\<rparr>)"
    unfolding d' findCart_def using k kid by (simp add: find_map_pred findCart_def app)
  from c k 1 2 app d' show ?thesis by simp
qed

lemma applyCoupon_redeems_run:
  "applyCoupon (Some shopper) 1000 ''SAVE20'' ''c1'' widgetDb
     = (Inr \<lparr>app_cartId = ''c1'', app_discountAmount = 20, app_couponCode = ''SAVE20''\<rparr>, couponDb)
   \<and> find (\<lambda>x. coupon_code x = ''SAVE20'') (db_coupons widgetDb) = Some save20
   \<and> find (\<lambda>x. coupon_code x = ''SAVE20'') (db_coupons couponDb)
       = Some (save20\<lparr>coupon_usesCount := coupon_usesCount save20 + 1\<rparr>)
   \<and> findCart ''c1'' widgetDb = Some widgetCart
   \<and> findCart ''c1'' couponDb
       = Some (widgetCart\<lparr>cart_discountAmount := 20, cart_couponCode := Some ''SAVE20''\<rparr>)
   \<and> db_cartItems couponDb = db_cartItems widgetDb"
proof -
  have h: "applyCoupon (Some shopper) 1000 ''SAVE20'' ''c1'' widgetDb
     = (Inr \<lparr>app_cartId = ''c1'', app_discountAmount = 20, app_couponCode = ''SAVE20''\<rparr>, couponDb)"
    by (simp add: shop_defs coupon_defs op_defs)
  have a: "find (\<lambda>x. coupon_code x = ''SAVE20'') (db_coupons widgetDb) = Some save20"
    by (simp add: shop_defs)
  have b: "findCart ''c1'' widgetDb = Some widgetCart"
    by (simp add: shop_defs findCart_def)
  from applyCoupon_redeems [OF h] h a b show ?thesis by auto
qed

text \<open>
  C7. The coupon \<^verbatim>\<open>SAVE20\<close> (20 percent) is applied to the cart of two widgets,
  whose subtotal is 100 and whose total is 120. \<open>applyCoupon\<close> returns, raises the usage
  counter from 0 to 1 and stores the code and the discount amount 20 on the cart, but it
  recomputes nothing: discount stays 0, tax 10 and total 120, and a later
  \<open>recalculateCartTotals\<close> changes nothing either, since it reads the promo code and not
  the coupon. The sibling \<open>applyPromoCode\<close>, on the same cart with the same code,
  recalculates: discount 20, tax 8, total 98.
\<close>

theorem applyCoupon_total_ignores_coupon:
  "applyCoupon (Some shopper) 1000 ''SAVE20'' ''c1'' widgetDb
     = (Inr \<lparr>app_cartId = ''c1'', app_discountAmount = 20, app_couponCode = ''SAVE20''\<rparr>, couponDb)
   \<and> map coupon_usesCount (db_coupons widgetDb) = [0, 0, 0]
   \<and> map coupon_usesCount (db_coupons couponDb) = [1, 0, 0]
   \<and> db_carts widgetDb = [widgetCart] \<and> db_carts couponDb = [couponCart]
   \<and> cart_couponCode couponCart = Some ''SAVE20'' \<and> cart_discountAmount couponCart = 20
   \<and> cart_subtotal couponCart = 100 \<and> cart_discount couponCart = 0 \<and> cart_tax couponCart = 10
   \<and> cart_shipping couponCart = 10 \<and> cart_total couponCart = 120
   \<and> cart_total couponCart = cart_total widgetCart
   \<and> recalculateCartTotals ''c1'' couponDb = (Inr (), couponDb)
   \<and> applyPromoCode 1000 ''c1'' ''SAVE20'' widgetDb = (Inr (Some discountedCart), discountedDb)
   \<and> cart_discount discountedCart = 20 \<and> cart_tax discountedCart = 8
   \<and> cart_total discountedCart = 98"
  by (simp add: shop_defs coupon_defs op_defs)

theorem applyCoupon_total_ignores_coupon_witness:
  "snd (applyCoupon (Some shopper) 1000 ''SAVE20'' ''c1'' widgetDb) = couponDb
   \<and> map cart_total (db_carts couponDb) = [120]
   \<and> map cart_discountAmount (db_carts couponDb) = [20]
   \<and> cart_total discountedCart = 98"
  using applyCoupon_total_ignores_coupon by simp

text \<open>
  C6, as the code has it. For a logged-in caller and a coupon that is found, active and
  inside its window, whose limit is set and not zero: when the usage count has reached
  the limit, \<open>applyCoupon\<close> throws the usage-limit error and the database is unchanged
  (no counter is incremented, no cart is written). A limit of zero is read as no limit.
\<close>

theorem applyCoupon_limit_reached:
  assumes "usr \<noteq> None"
    and "find (\<lambda>x. coupon_code x = code) (db_coupons d) = Some c"
    and "coupon_isActive c" and "coupon_startDate c \<le> now" and "now \<le> coupon_endDate c"
    and "coupon_maxUses c = Some m" and "m \<noteq> 0" and "m \<le> coupon_usesCount c"
  shows "applyCoupon usr now code cartId d = (Inl CouponUsageLimitReached, d)"
  using assms by (simp add: applyCoupon_def)

theorem applyCoupon_limit_reached_witness:
  "Some shopper \<noteq> None
   \<and> find (\<lambda>x. coupon_code x = ''SAVE20'') (db_coupons couponDb)
       = Some (save20\<lparr>coupon_usesCount := 1\<rparr>)
   \<and> coupon_maxUses (save20\<lparr>coupon_usesCount := 1\<rparr>) = Some 1
   \<and> coupon_usesCount (save20\<lparr>coupon_usesCount := 1\<rparr>) = 1
   \<and> applyCoupon (Some shopper) 1000 ''SAVE20'' ''c1'' couponDb
       = (Inl CouponUsageLimitReached, couponDb)"
proof -
  have a: "find (\<lambda>x. coupon_code x = ''SAVE20'') (db_coupons couponDb)
             = Some (save20\<lparr>coupon_usesCount := 1\<rparr>)"
    by (simp add: shop_defs coupon_defs)
  have b: "coupon_isActive (save20\<lparr>coupon_usesCount := 1\<rparr>)"
    "coupon_startDate (save20\<lparr>coupon_usesCount := 1\<rparr>) \<le> 1000"
    "1000 \<le> coupon_endDate (save20\<lparr>coupon_usesCount := 1\<rparr>)"
    "coupon_maxUses (save20\<lparr>coupon_usesCount := 1\<rparr>) = Some 1"
    "(1::int) \<noteq> 0" "1 \<le> coupon_usesCount (save20\<lparr>coupon_usesCount := 1\<rparr>)"
    by (simp_all add: shop_defs)
  have u: "Some shopper \<noteq> None" by simp
  from applyCoupon_limit_reached [OF u a b, of "''c1''"] a b show ?thesis by simp
qed

theorem applyCoupon_zero_limit_counterexample:
  "db_coupons widgetDb = [save20, fixed50, zeroLimit] \<and> coupon_code zeroLimit = ''NEVER''
   \<and> coupon_maxUses zeroLimit = Some 0 \<and> 0 \<le> coupon_usesCount zeroLimit
   \<and> applyCoupon (Some shopper) 1000 ''NEVER'' ''c1'' widgetDb
       = (Inr \<lparr>app_cartId = ''c1'', app_discountAmount = 10, app_couponCode = ''NEVER''\<rparr>,
          widgetDb\<lparr>db_carts := [widgetCart\<lparr>cart_discountAmount := 10,
                                             cart_couponCode := Some ''NEVER''\<rparr>],
                   db_coupons := [save20, fixed50, zeroLimit\<lparr>coupon_usesCount := 1\<rparr>]\<rparr>)"
  by (simp add: shop_defs op_defs)

subsection \<open>Adding a line\<close>

lemma recalculate_total:
  "\<exists>r d'. recalculateCartTotals cid d = (r, d') \<and> db_cartItems d' = db_cartItems d
     \<and> db_products d' = db_products d \<and> (findCart cid d \<noteq> None \<longrightarrow> r = Inr ())
     \<and> (\<forall>x. findCart x d' \<noteq> None \<longleftrightarrow> findCart x d \<noteq> None)"
proof -
  obtain s di t sh where eq: "recalculateCartTotals cid d =
     (case findCart cid d of None \<Rightarrow> (Inl (CartWithIdNotFound cid), d)
      | Some c \<Rightarrow> updateCart cid (setTotals s di t sh) d)"
    using recalculate_unfold by blast
  show ?thesis
  proof (cases "findCart cid d")
    case None
    with eq show ?thesis by simp
  next
    case (Some c)
    have "findCart x (d\<lparr>db_carts := map (\<lambda>c. if cart_id c = cid then setTotals s di t sh c else c)
                          (db_carts d)\<rparr>) \<noteq> None \<longleftrightarrow> findCart x d \<noteq> None" for x
      unfolding findCart_def
      by (simp add: find_map_pred [where g="\<lambda>c. if cart_id c = cid then setTotals s di t sh c else c"]
          cart_id_setTotals)
    with Some eq show ?thesis by (simp add: updateCart_def)
  qed
qed

lemma recalculate_and_return_found:
  assumes "findCart cid d1 = Some k"
  shows "\<exists>c d2. (case recalculateCartTotals cid d1 of
                    (Inl e, d2) \<Rightarrow> (Inl e, d2)
                  | (Inr u, d2) \<Rightarrow> findById cid d2) = (Inr (Some c), d2)
           \<and> findCart cid d2 = Some c
           \<and> db_cartItems d2 = db_cartItems d1 \<and> db_products d2 = db_products d1"
proof -
  from recalculate_total [of cid d1] assms obtain d2
    where "recalculateCartTotals cid d1 = (Inr (), d2)"
      and "db_cartItems d2 = db_cartItems d1" "db_products d2 = db_products d1"
      and "findCart cid d2 \<noteq> None"
    by auto
  then show ?thesis by (auto simp: findById_def)
qed

text \<open>What \<open>addItem\<close> leaves in the row table, when product, variant and cart exist.\<close>

lemma addItem_rows:
  assumes p: "find (\<lambda>p. product_id p = pid) (db_products d) = Some p"
    and v: "\<not> (truthyString vid \<and> filter (\<lambda>v. Some (variant_id v) = vid) (product_variants p) = [])"
    and k: "findCart cartId d = Some k"
  shows "\<exists>c d' price. addItem newId cartId \<lparr>in_productId = pid, in_variantId = vid, in_quantity = q\<rparr> d
             = (Inr (Some c), d')
           \<and> db_products d' = db_products d \<and> findCart cartId d' = Some c
           \<and> db_cartItems d'
               = (case find (sameLine cartId pid (orNull vid)) (db_cartItems d) of
                    Some e \<Rightarrow>
                      map (\<lambda>i. if item_id i = item_id e
                                then i\<lparr>item_quantity := item_quantity e + q,
                                       item_total := of_int (item_quantity e + q) * price\<rparr>
                                else i) (db_cartItems d)
                  | None \<Rightarrow>
                      db_cartItems d @
                        [\<lparr>item_id = newId, item_cartId = cartId, item_productId = pid,
                          item_variantId = orNull vid, item_quantity = q, item_price = price,
                          item_total = of_int q * price\<rparr>])"
proof -
  let ?variants = "if truthyString vid
       then filter (\<lambda>v. Some (variant_id v) = vid) (product_variants p) else []"
  let ?price = "case ?variants of v # _ \<Rightarrow> variant_price v | [] \<Rightarrow> product_price p"
  let ?rows = "case find (sameLine cartId pid (orNull vid)) (db_cartItems d) of
                    Some e \<Rightarrow>
                      map (\<lambda>i. if item_id i = item_id e
                                then i\<lparr>item_quantity := item_quantity e + q,
                                       item_total := of_int (item_quantity e + q) * ?price\<rparr>
                                else i) (db_cartItems d)
                  | None \<Rightarrow>
                      db_cartItems d @
                        [\<lparr>item_id = newId, item_cartId = cartId, item_productId = pid,
                          item_variantId = orNull vid, item_quantity = q, item_price = ?price,
                          item_total = of_int q * ?price\<rparr>]"
  let ?d1 = "d\<lparr>db_cartItems := ?rows\<rparr>"
  have k1: "findCart cartId ?d1 = Some k" using k by (simp add: findCart_def)
  from recalculate_and_return_found [OF k1] obtain c d2
    where tl: "(case recalculateCartTotals cartId ?d1 of
                    (Inl e, d2) \<Rightarrow> (Inl e, d2)
                  | (Inr u, d2) \<Rightarrow> findById cartId d2) = (Inr (Some c), d2)"
      and c: "findCart cartId d2 = Some c"
      and fr: "db_cartItems d2 = ?rows" "db_products d2 = db_products d"
    by auto
  have "addItem newId cartId \<lparr>in_productId = pid, in_variantId = vid, in_quantity = q\<rparr> d
          = (Inr (Some c), d2)"
  proof (cases "find (sameLine cartId pid (orNull vid)) (db_cartItems d)")
    case None
    show ?thesis
    proof (cases "truthyString vid")
      case True
      from True None p v k tl show ?thesis by (simp add: addItem_def Let_def)
    next
      case False
      from False None p v k tl show ?thesis by (simp add: addItem_def Let_def)
    qed
  next
    case (Some e)
    show ?thesis
    proof (cases "truthyString vid")
      case True
      from True Some p v k tl show ?thesis by (simp add: addItem_def Let_def updateCartItem_def cong: if_cong)
    next
      case False
      from False Some p v k tl show ?thesis by (simp add: addItem_def Let_def updateCartItem_def cong: if_cong)
    qed
  qed
  with fr c show ?thesis by blast
qed

lemma filter_map_same_line:
  assumes "\<And>x. P (g x) = P x"
  shows "filter P (map g xs) = map g (filter P xs)"
  using assms by (induction xs) auto

lemma find_None_filter: "find P xs = None \<Longrightarrow> filter P xs = []"
  by (induction xs) (auto split: if_splits)

lemma find_append_None: "find P xs = None \<Longrightarrow> find P (xs @ ys) = find P ys"
  by (induction xs) (auto split: if_splits)

text \<open>
  C8, as the code has it. \<open>addItem\<close> does not look at the sign of the quantity: for every
  \<open>q\<close>, zero and negative ones included, when the product exists, the requested variant
  (if any) exists and the cart exists, the call returns the cart, and the row table has
  either a new row with quantity \<open>q\<close> at its end or, when the line was present, the
  quantity of the row found raised by \<open>q\<close>.
\<close>

theorem addItem_any_quantity:
  assumes "find (\<lambda>p. product_id p = pid) (db_products d) = Some p"
    and "\<not> (truthyString vid \<and> filter (\<lambda>v. Some (variant_id v) = vid) (product_variants p) = [])"
    and "findCart cartId d = Some k"
  shows "\<exists>c d'. addItem newId cartId \<lparr>in_productId = pid, in_variantId = vid, in_quantity = q\<rparr> d
             = (Inr (Some c), d')
           \<and> (case find (sameLine cartId pid (orNull vid)) (db_cartItems d) of
                 None \<Rightarrow>
                   (\<exists>row. db_cartItems d' = db_cartItems d @ [row] \<and> item_id row = newId
                          \<and> sameLine cartId pid (orNull vid) row \<and> item_quantity row = q)
               | Some e \<Rightarrow>
                   map item_quantity (db_cartItems d')
                     = map (\<lambda>i. if item_id i = item_id e then item_quantity e + q
                                 else item_quantity i) (db_cartItems d))"
proof -
  from addItem_rows [OF assms, of newId q] obtain c d' price
    where a: "addItem newId cartId \<lparr>in_productId = pid, in_variantId = vid, in_quantity = q\<rparr> d
                = (Inr (Some c), d')"
      and rows: "db_cartItems d'
               = (case find (sameLine cartId pid (orNull vid)) (db_cartItems d) of
                    Some e \<Rightarrow>
                      map (\<lambda>i. if item_id i = item_id e
                                then i\<lparr>item_quantity := item_quantity e + q,
                                       item_total := of_int (item_quantity e + q) * price\<rparr>
                                else i) (db_cartItems d)
                  | None \<Rightarrow>
                      db_cartItems d @
                        [\<lparr>item_id = newId, item_cartId = cartId, item_productId = pid,
                          item_variantId = orNull vid, item_quantity = q, item_price = price,
                          item_total = of_int q * price\<rparr>])"
    by blast
  show ?thesis
  proof (cases "find (sameLine cartId pid (orNull vid)) (db_cartItems d)")
    case None
    with a rows show ?thesis by (simp add: sameLine_def)
  next
    case (Some e)
    with a rows show ?thesis by (simp add: comp_def if_distrib cong: if_cong)
  qed
qed

theorem addItem_any_quantity_witness:
  "find (\<lambda>p. product_id p = ''p1'') (db_products widgetDb) = Some widget
   \<and> \<not> (truthyString None \<and> filter (\<lambda>v. Some (variant_id v) = None) (product_variants widget) = [])
   \<and> findCart ''c1'' widgetDb = Some widgetCart
   \<and> find (sameLine ''c1'' ''p1'' (orNull None)) (db_cartItems widgetDb) = Some twoWidgets
   \<and> (\<exists>c d'. addItem ''i2'' ''c1'' (addWidgets (- 5)) widgetDb = (Inr (Some c), d')
         \<and> map item_quantity (db_cartItems d') = [- 3])"
proof -
  have a: "find (\<lambda>p. product_id p = ''p1'') (db_products widgetDb) = Some widget"
    by (simp add: shop_defs)
  have b: "\<not> (truthyString None
               \<and> filter (\<lambda>v. Some (variant_id v) = None) (product_variants widget) = [])"
    by (simp add: truthyString_def)
  have c: "findCart ''c1'' widgetDb = Some widgetCart"
    by (simp add: shop_defs findCart_def)
  have e: "find (sameLine ''c1'' ''p1'' (orNull None)) (db_cartItems widgetDb) = Some twoWidgets"
    by (simp add: shop_defs sameLine_def orNull_def truthyString_def)
  have q: "map (\<lambda>i. if item_id i = item_id twoWidgets then item_quantity twoWidgets + (- 5)
                      else item_quantity i) (db_cartItems widgetDb) = [- 3]"
    by (simp add: shop_defs)
  from addItem_any_quantity [OF a b c, of "''i2''" "- 5"] a b c e q show ?thesis
    by (simp add: addWidgets_def)
qed

theorem addItem_negative_quantity_counterexample:
  "in_quantity (addWidgets (- 2)) \<le> 0
   \<and> addItem ''i1'' ''c1'' (addWidgets (- 2)) shopDb
       = (Inr (Some (newCart\<lparr>cart_subtotal := - 100, cart_tax := - 10, cart_total := - 110\<rparr>)),
          shopDb\<lparr>db_cartItems := [twoWidgets\<lparr>item_quantity := - 2, item_total := - 100\<rparr>],
                 db_carts := [newCart\<lparr>cart_subtotal := - 100, cart_tax := - 10,
                                      cart_total := - 110\<rparr>]\<rparr>)
   \<and> db_cartItems shopDb = []"
  by (simp add: shop_defs op_defs)

subsection \<open>One row for each line of a cart\<close>

text \<open>
  C3. When the product, the requested variant (if any) and the cart exist, \<open>addItem\<close>
  returns; if the cart already had a row for the (product, variant) line, the call adds
  no row (the table and the line keep their number of rows); if it had none, a second
  \<open>addItem\<close> for the same line returns too, and the cart then has exactly one row for
  the line, with quantity \<open>q1 + q2\<close>, the second call having added no row.
\<close>

theorem addItem_twice_one_row:
  assumes "find (\<lambda>p. product_id p = pid) (db_products d) = Some p"
    and "\<not> (truthyString vid \<and> filter (\<lambda>v. Some (variant_id v) = vid) (product_variants p) = [])"
    and "findCart cartId d = Some k"
  shows "\<exists>c1 d1. addItem id1 cartId \<lparr>in_productId = pid, in_variantId = vid, in_quantity = q1\<rparr> d
             = (Inr (Some c1), d1)
           \<and> (find (sameLine cartId pid (orNull vid)) (db_cartItems d) \<noteq> None \<longrightarrow>
                 length (db_cartItems d1) = length (db_cartItems d)
                 \<and> length (filter (sameLine cartId pid (orNull vid)) (db_cartItems d1))
                     = length (filter (sameLine cartId pid (orNull vid)) (db_cartItems d)))
           \<and> (find (sameLine cartId pid (orNull vid)) (db_cartItems d) = None \<longrightarrow>
                 (\<exists>c2 d2 row.
                    addItem id2 cartId \<lparr>in_productId = pid, in_variantId = vid, in_quantity = q2\<rparr> d1
                      = (Inr (Some c2), d2)
                    \<and> filter (sameLine cartId pid (orNull vid)) (db_cartItems d2) = [row]
                    \<and> item_quantity row = q1 + q2
                    \<and> length (db_cartItems d2) = length (db_cartItems d1)))"
proof -
  let ?L = "sameLine cartId pid (orNull vid)"
  have keep: "?L (if item_id i = x then i\<lparr>item_quantity := a, item_total := b\<rparr> else i) = ?L i"
    for i x a b by (simp add: sameLine_def)
  from addItem_rows [OF assms, of id1 q1] obtain c1 d1 price1
    where a1: "addItem id1 cartId \<lparr>in_productId = pid, in_variantId = vid, in_quantity = q1\<rparr> d
                = (Inr (Some c1), d1)"
      and p1: "db_products d1 = db_products d" and k1: "findCart cartId d1 = Some c1"
      and rows1: "db_cartItems d1
               = (case find ?L (db_cartItems d) of
                    Some e \<Rightarrow>
                      map (\<lambda>i. if item_id i = item_id e
                                then i\<lparr>item_quantity := item_quantity e + q1,
                                       item_total := of_int (item_quantity e + q1) * price1\<rparr>
                                else i) (db_cartItems d)
                  | None \<Rightarrow>
                      db_cartItems d @
                        [\<lparr>item_id = id1, item_cartId = cartId, item_productId = pid,
                          item_variantId = orNull vid, item_quantity = q1, item_price = price1,
                          item_total = of_int q1 * price1\<rparr>])"
    by blast
  have present: "length (db_cartItems d1) = length (db_cartItems d)
                 \<and> length (filter ?L (db_cartItems d1)) = length (filter ?L (db_cartItems d))"
    if "find ?L (db_cartItems d) \<noteq> None"
  proof -
    from that obtain e where e: "find ?L (db_cartItems d) = Some e" by auto
    let ?g = "\<lambda>i. if item_id i = item_id e
                   then i\<lparr>item_quantity := item_quantity e + q1,
                          item_total := of_int (item_quantity e + q1) * price1\<rparr>
                   else i"
    from rows1 e have r1: "db_cartItems d1 = map ?g (db_cartItems d)" by simp
    have "filter ?L (map ?g (db_cartItems d)) = map ?g (filter ?L (db_cartItems d))"
      by (rule filter_map_same_line) (rule keep)
    then show ?thesis unfolding r1 by simp
  qed
  have absent: "\<exists>c2 d2 row.
                    addItem id2 cartId \<lparr>in_productId = pid, in_variantId = vid, in_quantity = q2\<rparr> d1
                      = (Inr (Some c2), d2)
                    \<and> filter ?L (db_cartItems d2) = [row]
                    \<and> item_quantity row = q1 + q2
                    \<and> length (db_cartItems d2) = length (db_cartItems d1)"
    if none: "find ?L (db_cartItems d) = None"
  proof -
    let ?new = "\<lparr>item_id = id1, item_cartId = cartId, item_productId = pid,
                 item_variantId = orNull vid, item_quantity = q1, item_price = price1,
                 item_total = of_int q1 * price1\<rparr>"
    from none rows1 have r1: "db_cartItems d1 = db_cartItems d @ [?new]" by simp
    have new: "?L ?new" by (simp add: sameLine_def)
    have f1: "find ?L (db_cartItems d1) = Some ?new"
      unfolding r1 using none new by (simp add: find_append_None)
    from p1 assms(1) have p: "find (\<lambda>p. product_id p = pid) (db_products d1) = Some p" by simp
    from addItem_rows [OF p assms(2) k1, of id2 q2] obtain c2 d2 price2
      where a2: "addItem id2 cartId \<lparr>in_productId = pid, in_variantId = vid, in_quantity = q2\<rparr> d1
                  = (Inr (Some c2), d2)"
        and rows2: "db_cartItems d2
               = (case find ?L (db_cartItems d1) of
                    Some e \<Rightarrow>
                      map (\<lambda>i. if item_id i = item_id e
                                then i\<lparr>item_quantity := item_quantity e + q2,
                                       item_total := of_int (item_quantity e + q2) * price2\<rparr>
                                else i) (db_cartItems d1)
                  | None \<Rightarrow>
                      db_cartItems d1 @
                        [\<lparr>item_id = id2, item_cartId = cartId, item_productId = pid,
                          item_variantId = orNull vid, item_quantity = q2, item_price = price2,
                          item_total = of_int q2 * price2\<rparr>])"
      by blast
    let ?g = "\<lambda>i. if item_id i = id1
                   then i\<lparr>item_quantity := q1 + q2, item_total := of_int (q1 + q2) * price2\<rparr>
                   else i"
    from rows2 f1 have r2: "db_cartItems d2 = map ?g (db_cartItems d1)" by simp
    have "filter ?L (db_cartItems d2) = map ?g (filter ?L (db_cartItems d1))"
      unfolding r2 by (rule filter_map_same_line) (rule keep)
    also have "filter ?L (db_cartItems d1) = [?new]"
      unfolding r1 using find_None_filter [OF none] new by simp
    finally have "filter ?L (db_cartItems d2) = [?g ?new]" by simp
    moreover have "item_quantity (?g ?new) = q1 + q2" by simp
    moreover have "length (db_cartItems d2) = length (db_cartItems d1)" unfolding r2 by simp
    ultimately show ?thesis using a2 by blast
  qed
  show ?thesis
    by (rule exI [of _ c1], rule exI [of _ d1], intro conjI impI)
       (use a1 present absent in simp_all)
qed

theorem addItem_twice_one_row_witness:
  "find (\<lambda>p. product_id p = ''p1'') (db_products shopDb) = Some widget
   \<and> \<not> (truthyString (Some ''v1'')
         \<and> filter (\<lambda>v. Some (variant_id v) = Some ''v1'') (product_variants widget) = [])
   \<and> findCart ''c1'' shopDb = Some newCart
   \<and> find (sameLine ''c1'' ''p1'' (orNull (Some ''v1''))) (db_cartItems shopDb) = None
   \<and> (\<exists>c1 d1 c2 d2 row.
         addItem ''i1'' ''c1'' \<lparr>in_productId = ''p1'', in_variantId = Some ''v1'', in_quantity = 2\<rparr> shopDb
           = (Inr (Some c1), d1)
         \<and> addItem ''i2'' ''c1'' \<lparr>in_productId = ''p1'', in_variantId = Some ''v1'', in_quantity = 3\<rparr> d1
             = (Inr (Some c2), d2)
         \<and> filter (sameLine ''c1'' ''p1'' (orNull (Some ''v1''))) (db_cartItems d2) = [row]
         \<and> item_quantity row = 2 + 3)
   \<and> find (sameLine ''c1'' ''p1'' (orNull None)) (db_cartItems widgetDb) \<noteq> None
   \<and> (\<exists>c1 d1. addItem ''i2'' ''c1'' \<lparr>in_productId = ''p1'', in_variantId = None, in_quantity = 3\<rparr> widgetDb
           = (Inr (Some c1), d1)
         \<and> length (db_cartItems d1) = length (db_cartItems widgetDb))
   \<and> map item_quantity
         (db_cartItems (snd (addItem ''i2'' ''c1'' (addWidgets 3)
            (snd (addItem ''i1'' ''c1'' (addWidgets 2) shopDb))))) = [5]"
proof -
  have r: "map item_quantity
         (db_cartItems (snd (addItem ''i2'' ''c1'' (addWidgets 3)
            (snd (addItem ''i1'' ''c1'' (addWidgets 2) shopDb))))) = [5]"
    by (simp add: shop_defs op_defs)
  have a: "find (\<lambda>p. product_id p = ''p1'') (db_products shopDb) = Some widget"
    by (simp add: shop_defs)
  have b: "\<not> (truthyString (Some ''v1'')
         \<and> filter (\<lambda>v. Some (variant_id v) = Some ''v1'') (product_variants widget) = [])"
    by (simp add: shop_defs)
  have c: "findCart ''c1'' shopDb = Some newCart"
    by (simp add: shop_defs findCart_def)
  have n: "find (sameLine ''c1'' ''p1'' (orNull (Some ''v1''))) (db_cartItems shopDb) = None"
    by (simp add: shop_defs)
  have a': "find (\<lambda>p. product_id p = ''p1'') (db_products widgetDb) = Some widget"
    by (simp add: shop_defs)
  have b': "\<not> (truthyString None
         \<and> filter (\<lambda>v. Some (variant_id v) = None) (product_variants widget) = [])"
    by (simp add: truthyString_def)
  have c': "findCart ''c1'' widgetDb = Some widgetCart"
    by (simp add: shop_defs findCart_def)
  have n': "find (sameLine ''c1'' ''p1'' (orNull None)) (db_cartItems widgetDb) \<noteq> None"
    by (simp add: shop_defs sameLine_def orNull_def truthyString_def)
  from addItem_twice_one_row [OF a b c, of "''i1''" 2 "''i2''" 3] n
  have 1: "\<exists>c1 d1 c2 d2 row.
         addItem ''i1'' ''c1'' \<lparr>in_productId = ''p1'', in_variantId = Some ''v1'', in_quantity = 2\<rparr> shopDb
           = (Inr (Some c1), d1)
         \<and> addItem ''i2'' ''c1'' \<lparr>in_productId = ''p1'', in_variantId = Some ''v1'', in_quantity = 3\<rparr> d1
             = (Inr (Some c2), d2)
         \<and> filter (sameLine ''c1'' ''p1'' (orNull (Some ''v1''))) (db_cartItems d2) = [row]
         \<and> item_quantity row = 2 + 3"
    by blast
  from addItem_twice_one_row [OF a' b' c', of "''i2''" 3 "''i3''" 1] n'
  have 2: "\<exists>c1 d1. addItem ''i2'' ''c1'' \<lparr>in_productId = ''p1'', in_variantId = None, in_quantity = 3\<rparr> widgetDb
           = (Inr (Some c1), d1)
         \<and> length (db_cartItems d1) = length (db_cartItems widgetDb)"
    by blast
  from a b c n n' 1 2 r show ?thesis by blast
qed

subsection \<open>What recalculation writes\<close>

lemmas gadget_defs = oneGadget_def gadgetCart_def gadgetDb_def dearWidgetDb_def

lemma recalculate_result:
  assumes "findCart cid d = Some c"
  shows "\<exists>c' d'. recalculateCartTotals cid d = (Inr (), d') \<and> findCart cid d' = Some c'
           \<and> cart_subtotal c' = foldl (\<lambda>sum item. sum + item_total item) 0 (itemsOfCart cid d)
           \<and> cart_discount c'
               = (case (case cart_promoCodeId c of
                          None \<Rightarrow> None
                        | Some pid \<Rightarrow> find (\<lambda>p. promo_id p = pid) (db_promoCodes d)) of
                    None \<Rightarrow> 0
                  | Some p \<Rightarrow>
                      if promo_isPercentage p then cart_subtotal c' * (promo_discount p / 100)
                      else min (promo_discount p) (cart_subtotal c'))
           \<and> cart_tax c' = (cart_subtotal c' - cart_discount c') * (1 / 10)
           \<and> cart_shipping c' = (if cart_subtotal c' > 0 then 10 else 0)
           \<and> cart_total c' = cart_subtotal c' - cart_discount c' + cart_tax c' + cart_shipping c'"
proof -
  define s where "s = foldl (\<lambda>sum item. sum + item_total item) 0 (itemsOfCart cid d)"
  define di where "di = (case (case cart_promoCodeId c of
                          None \<Rightarrow> None
                        | Some pid \<Rightarrow> find (\<lambda>p. promo_id p = pid) (db_promoCodes d)) of
                    None \<Rightarrow> 0
                  | Some p \<Rightarrow>
                      if promo_isPercentage p then s * (promo_discount p / 100)
                      else min (promo_discount p) s)"
  define t where "t = (s - di) * (1 / 10)"
  define sh where "sh = (if s > 0 then 10 else (0::rat))"
  let ?c' = "setTotals s di t sh c"
  have eq: "recalculateCartTotals cid d = updateCart cid (setTotals s di t sh) d"
    unfolding recalculateCartTotals_def Let_def setTotals_def assms option.case
      sh_def t_def di_def s_def
    by (rule refl)
  obtain d' where up: "updateCart cid (setTotals s di t sh) d = (Inr (), d')"
    using assms by (simp add: updateCart_def)
  from updateCart_Inr [OF up cart_id_setTotals] obtain c0
    where c0: "findCart cid d = Some c0" and x: "findCart cid d' = Some (setTotals s di t sh c0)"
    by blast
  from c0 assms have "c0 = c" by simp
  with x have c': "findCart cid d' = Some ?c'" by simp
  have props: "cart_subtotal ?c' = s" "cart_discount ?c' = di" "cart_tax ?c' = t"
    "cart_shipping ?c' = sh" "cart_total ?c' = s - di + t + sh"
    by (simp_all add: setTotals_def)
  show ?thesis
    apply (rule exI [of _ ?c'], rule exI [of _ d'])
    apply (simp only: props eq up c')
    apply (intro conjI refl)
       apply (rule s_def)
      apply (rule di_def)
     apply (rule t_def)
    apply (rule sh_def)
    done
qed

text \<open>
  The repository path caps a fixed-amount promo code at the subtotal; shipping is 10 for
  every positive subtotal, however large, and 0 otherwise.
\<close>

lemma recalculate_fixed_discount_capped:
  assumes "findCart cid d = Some c" and "cart_promoCodeId c = Some pid"
    and "find (\<lambda>p. promo_id p = pid) (db_promoCodes d) = Some p" and "\<not> promo_isPercentage p"
  shows "\<exists>c' d'. recalculateCartTotals cid d = (Inr (), d') \<and> findCart cid d' = Some c'
           \<and> cart_discount c' = min (promo_discount p) (cart_subtotal c')
           \<and> cart_discount c' \<le> cart_subtotal c'"
proof -
  from recalculate_result [OF assms(1)] obtain c' d'
    where r: "recalculateCartTotals cid d = (Inr (), d')" "findCart cid d' = Some c'"
      and dis: "cart_discount c'
               = (case (case cart_promoCodeId c of
                          None \<Rightarrow> None
                        | Some pid \<Rightarrow> find (\<lambda>p. promo_id p = pid) (db_promoCodes d)) of
                    None \<Rightarrow> 0
                  | Some p \<Rightarrow>
                      if promo_isPercentage p then cart_subtotal c' * (promo_discount p / 100)
                      else min (promo_discount p) (cart_subtotal c'))"
    by blast
  from dis assms(2-4) have "cart_discount c' = min (promo_discount p) (cart_subtotal c')"
    by simp
  with r show ?thesis by simp
qed

lemma recalculate_shipping:
  assumes "findCart cid d = Some c"
  shows "\<exists>c' d'. recalculateCartTotals cid d = (Inr (), d') \<and> findCart cid d' = Some c'
           \<and> cart_shipping c' = (if cart_subtotal c' > 0 then 10 else 0)"
proof -
  from recalculate_result [OF assms] obtain c' d'
    where "recalculateCartTotals cid d = (Inr (), d')" "findCart cid d' = Some c'"
      and "cart_shipping c' = (if cart_subtotal c' > 0 then 10 else 0)"
    by blast
  then show ?thesis by simp
qed

lemma couponDiscountAmount_capped:
  assumes "coupon_discountType c = PERCENTAGE" and "coupon_maxDiscount c = Some m" and "m \<noteq> 0"
  shows "couponDiscountAmount c cartTotal \<le> m"
  using assms by (simp add: couponDiscountAmount_def Let_def)

lemma couponDiscountAmount_fixed:
  assumes "coupon_discountType c = FIXED_AMOUNT"
  shows "couponDiscountAmount c cartTotal = coupon_discountValue c"
  using assms by (simp add: couponDiscountAmount_def)

subsection \<open>Runs where the code departs from its own comments\<close>

lemma addItem_one_gadget:
  "addItem ''i1'' ''c1'' (addGadgets 1) shopDb = (Inr (Some gadgetCart), gadgetDb)"
  by (simp add: shop_defs gadget_defs op_defs)

text \<open>
  C2. A cart holds two widgets captured at 50; the catalog price goes to 80; one more
  widget is added. The row keeps its captured price 50 and gets quantity 3, but its
  total is written as 3 times the new price, so the subtotal is 240 while captured
  price times quantity is 150.
\<close>

theorem addItem_after_price_change:
  "addItem ''i1'' ''c1'' (addWidgets 2) shopDb = (Inr (Some widgetCart), widgetDb)
   \<and> addItem ''i2'' ''c1'' (addWidgets 1) dearWidgetDb
       = (Inr (Some (widgetCart\<lparr>cart_subtotal := 240, cart_tax := 24, cart_total := 274\<rparr>)),
          dearWidgetDb\<lparr>db_cartItems := [twoWidgets\<lparr>item_quantity := 3, item_total := 240\<rparr>],
                       db_carts := [widgetCart\<lparr>cart_subtotal := 240, cart_tax := 24,
                                               cart_total := 274\<rparr>]\<rparr>)
   \<and> item_price (twoWidgets\<lparr>item_quantity := 3, item_total := 240\<rparr>) = 50
   \<and> capturedSubtotal [twoWidgets\<lparr>item_quantity := 3, item_total := 240\<rparr>] = 150"
  by (simp add: shop_defs gadget_defs op_defs capturedSubtotal_def)

text \<open>
  C4. A fixed-amount coupon of 50 is applied to a cart whose one row is a gadget at 30:
  \<open>applyCoupon\<close> returns and stores a discount amount of 50, above the cart total of 30.
\<close>

theorem applyCoupon_fixed_exceeds_total:
  "reduceCartTotal (db_products gadgetDb) 0 (itemsOfCart ''c1'' gadgetDb) = Some 30
   \<and> cart_subtotal gadgetCart = 30
   \<and> applyCoupon (Some shopper) 1000 ''FIXED50'' ''c1'' gadgetDb
       = (Inr \<lparr>app_cartId = ''c1'', app_discountAmount = 50, app_couponCode = ''FIXED50''\<rparr>,
          gadgetDb\<lparr>db_carts := [gadgetCart\<lparr>cart_discountAmount := 50,
                                             cart_couponCode := Some ''FIXED50''\<rparr>],
                   db_coupons := [save20, fixed50\<lparr>coupon_usesCount := 1\<rparr>, zeroLimit]\<rparr>)"
  by (simp add: shop_defs gadget_defs op_defs)

theorem applyCoupon_fixed_exceeds_total_witness:
  "fst (applyCoupon (Some shopper) 1000 ''FIXED50'' ''c1'' gadgetDb)
     = Inr \<lparr>app_cartId = ''c1'', app_discountAmount = 50, app_couponCode = ''FIXED50''\<rparr>
   \<and> cart_subtotal gadgetCart < 50"
  using applyCoupon_fixed_exceeds_total by simp

text \<open>
  C5. Three widgets at 50 make a subtotal of 150, above the threshold of 100 that the
  comment in \<open>recalculateCartTotals\<close> names; the shipping written is 10, not 0.
\<close>

theorem recalculate_ships_above_threshold:
  "addItem ''i1'' ''c1'' (addWidgets 3) shopDb
     = (Inr (Some (newCart\<lparr>cart_subtotal := 150, cart_tax := 15, cart_shipping := 10,
                           cart_total := 175\<rparr>)),
        shopDb\<lparr>db_cartItems := [twoWidgets\<lparr>item_quantity := 3, item_total := 150\<rparr>],
               db_carts := [newCart\<lparr>cart_subtotal := 150, cart_tax := 15, cart_shipping := 10,
                                    cart_total := 175\<rparr>]\<rparr>)"
  by (simp add: shop_defs op_defs)

subsection \<open>The two paths that apply a code\<close>

text \<open>
  The coupon mutations write no amount of a cart, so they keep consistent carts
  consistent; they do not make an inconsistent cart consistent.
\<close>

lemma applyCoupon_keeps_consistent:
  "cartsConsistent d \<Longrightarrow> cartsConsistent (snd (applyCoupon usr now code cartId d))"
proof (cases "applyCoupon usr now code cartId d")
  case (Pair r d')
  assume ok: "cartsConsistent d"
  show ?thesis
  proof (cases r)
    case (Inl e)
    with Pair have "d' = d"
      by (auto simp: applyCoupon_def Let_def updateCart_def findCart_def
          split: if_splits option.splits)
    with Pair ok show ?thesis by simp
  next
    case (Inr app)
    with Pair applyCoupon_Inr [of usr now code cartId d app d'] ok show ?thesis
      by (auto simp: cartsConsistent_def list_all_iff totalsConsistent_def)
  qed
qed

lemma removeCoupon_keeps_consistent:
  "cartsConsistent d \<Longrightarrow> cartsConsistent (snd (removeCoupon usr cartId d))"
  by (auto simp: removeCoupon_def updateCart_def cartsConsistent_def list_all_iff
      totalsConsistent_def split: option.splits)

text \<open>
  \<open>applyPromoCode\<close> is the path that recalculates: on a cart that exists and a code that
  is found and not expired it returns the cart linked to the promo code, with a
  consistent total, and writes neither the promo codes nor the coupons.
\<close>

lemma applyPromoCode_success:
  assumes "find (\<lambda>p. promo_code p = code) (db_promoCodes d) = Some promo"
    and "\<not> (case promo_expiresAt promo of None \<Rightarrow> False | Some t \<Rightarrow> t < now)"
    and "findCart cartId d = Some k"
  shows "\<exists>c d'. applyPromoCode now cartId code d = (Inr (Some c), d')
           \<and> cart_promoCodeId c = Some (promo_id promo) \<and> totalsConsistent c
           \<and> db_promoCodes d' = db_promoCodes d \<and> db_coupons d' = db_coupons d"
proof -
  let ?f = "\<lambda>c. c\<lparr>cart_promoCodeId := Some (promo_id promo)\<rparr>"
  obtain d1 where up: "updateCart cartId ?f d = (Inr (), d1)"
    using assms(3) by (simp add: updateCart_def)
  from updateCart_Inr [OF up] assms(3) have k1: "findCart cartId d1 = Some (?f k)"
    and f1: "db_promoCodes d1 = db_promoCodes d" "db_coupons d1 = db_coupons d" by auto
  obtain s di t sh where eq: "recalculateCartTotals cartId d1 =
     (case findCart cartId d1 of None \<Rightarrow> (Inl (CartWithIdNotFound cartId), d1)
      | Some c \<Rightarrow> updateCart cartId (setTotals s di t sh) d1)"
    using recalculate_unfold by blast
  obtain d2 where up2: "updateCart cartId (setTotals s di t sh) d1 = (Inr (), d2)"
    using k1 by (simp add: updateCart_def)
  from updateCart_Inr [OF up2 cart_id_setTotals] k1
  have k2: "findCart cartId d2 = Some (setTotals s di t sh (?f k))"
    and f2: "db_promoCodes d2 = db_promoCodes d1" "db_coupons d2 = db_coupons d1" by auto
  have "applyPromoCode now cartId code d = (Inr (Some (setTotals s di t sh (?f k))), d2)"
    using assms(1,2) up eq k1 up2 k2 by (simp add: applyPromoCode_def findById_def)
  with f1 f2 show ?thesis
    by (simp add: totalsConsistent_setTotals) (simp add: setTotals_def)
qed

end
